theory Spec2Isabelle
  imports Main "HOL-Library.Word"
begin

unbundle bit_operations_syntax

section \<open>Kernel types and status codes shared by both drivers\<close>

text \<open>
  \<open>NTSTATUS\<close> is a signed 32-bit value. The drivers name three codes and test statuses with
  \<open>NT_SUCCESS\<close>; the codes and the macro come from the kernel headers (ntstatus.h, ntdef.h),
  which are included by the drivers and not part of their sources. The values below are the
  ones of those headers.
\<close>

type_synonym NTSTATUS = "32 word"
type_synonym HANDLE = "64 word"

definition STATUS_SUCCESS :: NTSTATUS where
  "STATUS_SUCCESS = 0x00000000"

definition STATUS_ACCESS_DENIED :: NTSTATUS where
  "STATUS_ACCESS_DENIED = 0xC0000022"


text \<open>\<open>#define NT_SUCCESS(Status) (((NTSTATUS)(Status)) >= 0)\<close>\<close>

definition NT_SUCCESS :: "NTSTATUS \<Rightarrow> bool" where
  "NT_SUCCESS Status = (0 \<le> sint Status)"

text \<open>
  A spin lock is modelled by whether it is held. A run of one routine is sequential:
  \<open>KeAcquireSpinLock\<close> returns once the lock is free and leaves it held by the caller,
  \<open>KeReleaseSpinLock\<close> leaves it free.
\<close>

type_synonym KSPIN_LOCK = bool

definition KeInitializeSpinLock :: KSPIN_LOCK where
  "KeInitializeSpinLock = False"

definition KeAcquireSpinLock :: "KSPIN_LOCK \<Rightarrow> KSPIN_LOCK" where
  "KeAcquireSpinLock l = True"

definition KeReleaseSpinLock :: "KSPIN_LOCK \<Rightarrow> KSPIN_LOCK" where
  "KeReleaseSpinLock l = False"

section \<open>SecureHostDevice: the device access control driver\<close>

subsection \<open>Data\<close>

datatype SECUREHOST_DEVICE_TYPE =
    DeviceTypeCamera
  | DeviceTypeMicrophone
  | DeviceTypeUSB
  | DeviceTypeBluetooth
  | DeviceTypeUnknown

text \<open>\<open>BOOLEAN\<close> is an unsigned char, \<open>WCHAR\<close> a 16-bit unit; the name buffer has 256 units.\<close>

record SECUREHOST_DEVICE_POLICY =
  DeviceType :: SECUREHOST_DEVICE_TYPE
  ProcessId :: "32 word"
  Allowed :: "8 word"
  ProcessName :: "16 word list"


text \<open>
  The policy list is a circular doubly linked list headed in the driver context. In this
  part it is held as the sequence of policy records that the lookup reads, one per entry of
  the walk along \<open>Flink\<close> from the head; this view carries the properties of the dispatcher,
  of the process name and of the frame of the lookup. The cells of the list in memory, where
  the first sixteen bytes of a policy are also the links of its entry, are the subject of the
  section on the policy list in memory below.
\<close>

record DRIVER_CONTEXT =
  Driver :: HANDLE
  PolicyLock :: KSPIN_LOCK
  PolicyList :: "SECUREHOST_DEVICE_POLICY list"

subsection \<open>DriverEntry: the part that initialises the driver context\<close>

text \<open>
  After \<open>WdfDriverCreate\<close> has succeeded the context is zeroed, the driver handle stored,
  the lock initialised and the list head initialised (an empty list).
\<close>

definition InitializeListHead :: "'a list" where
  "InitializeListHead = []"


subsection \<open>SecureHostCheckDeviceAccess\<close>

text \<open>
  The \<open>for\<close> loop over the list. The arguments are the entries from \<open>entry\<close> on and the
  position of \<open>entry\<close> in the list. The result is the value of \<open>status\<close> and the position
  of \<open>entry\<close> when the loop is left: the position of the policy at which \<open>break\<close> ran, or
  the length of the list when \<open>entry\<close> is back at the list head.
\<close>

fun policy_scan ::
  "SECUREHOST_DEVICE_POLICY list \<Rightarrow> nat \<Rightarrow> SECUREHOST_DEVICE_TYPE \<Rightarrow> 32 word \<Rightarrow> NTSTATUS \<times> nat"
where
  "policy_scan [] entry DeviceType' ProcessId' = (STATUS_ACCESS_DENIED, entry)"
| "policy_scan (policy # rest) entry DeviceType' ProcessId' =
     (if DeviceType policy = DeviceType' \<and>
         (ProcessId policy = 0 \<or> ProcessId policy = ProcessId')
      then (if Allowed policy \<noteq> 0
            then (STATUS_SUCCESS, entry)
            else policy_scan rest (Suc entry) DeviceType' ProcessId')
      else policy_scan rest (Suc entry) DeviceType' ProcessId')"

definition SecureHostCheckDeviceAccess ::
  "DRIVER_CONTEXT \<Rightarrow> SECUREHOST_DEVICE_TYPE \<Rightarrow> 32 word \<Rightarrow> NTSTATUS \<times> DRIVER_CONTEXT"
where
  "SecureHostCheckDeviceAccess Context DeviceType' ProcessId' =
     (let c1 = Context\<lparr>PolicyLock := KeAcquireSpinLock (PolicyLock Context)\<rparr>;
          status = fst (policy_scan (PolicyList c1) 0 DeviceType' ProcessId');
          c2 = c1\<lparr>PolicyLock := KeReleaseSpinLock (PolicyLock c1)\<rparr>
      in (status, c2))"

subsection \<open>The writer of the policy store\<close>




subsection \<open>SecureHostIoDeviceControl\<close>










section \<open>SecureHostDevice: the policy list in memory\<close>

subsection \<open>Memory, and the list functions of the kernel headers\<close>

text \<open>
  \<open>SECUREHOST_DEVICE_POLICY\<close> has no \<open>LIST_ENTRY\<close> member. Both loops of the driver take the
  policy of an entry with \<open>CONTAINING_RECORD(entry, SECUREHOST_DEVICE_POLICY, DeviceType)\<close>,
  and \<open>DeviceType\<close> is the member at offset 0: the address of a policy is the address of its
  list entry. On the 64-bit target the entry's \<open>Flink\<close> is the eight bytes at offset 0, which
  are \<open>DeviceType\<close> (offset 0, four bytes) and \<open>ProcessId\<close> (offset 4, four bytes), and its
  \<open>Blink\<close> is the eight bytes at offset 8, whose lowest byte is \<open>Allowed\<close> (offset 8).

  Memory is a partial map from addresses to 8-byte cells (little endian); an address that
  holds no cell cannot be read or written, and an access to it stops the run with a page
  fault. The list functions are those of wdm.h, which the driver includes: they are modelled
  as the header defines them, with its check of the neighbours' links that ends the run
  when the list is inconsistent.
\<close>

type_synonym address = "64 word"
type_synonym memory = "64 word \<Rightarrow> 64 word option"

datatype stop = PageFault | ListEntryCorrupt

definition load :: "memory \<Rightarrow> address \<Rightarrow> stop + 64 word" where
  "load mem a = (case mem a of None \<Rightarrow> Inl PageFault | Some v \<Rightarrow> Inr v)"

definition store :: "memory \<Rightarrow> address \<Rightarrow> 64 word \<Rightarrow> stop + memory" where
  "store mem a v = (case mem a of None \<Rightarrow> Inl PageFault | Some _ \<Rightarrow> Inr (mem(a \<mapsto> v)))"

text \<open>Sequencing of steps that can stop the run.\<close>

definition and_then :: "stop + 'a \<Rightarrow> ('a \<Rightarrow> stop + 'b) \<Rightarrow> stop + 'b" where
  "and_then x f = (case x of Inl e \<Rightarrow> Inl e | Inr v \<Rightarrow> f v)"

text \<open>The addresses of the two members of a \<open>LIST_ENTRY\<close>.\<close>

definition Flink :: "address \<Rightarrow> address" where
  "Flink entry = entry"

definition Blink :: "address \<Rightarrow> address" where
  "Blink entry = entry + 8"

definition InitializeListHead_at :: "memory \<Rightarrow> address \<Rightarrow> stop + memory" where
  "InitializeListHead_at mem ListHead =
     and_then (store mem (Flink ListHead) ListHead) (\<lambda>mem.
       store mem (Blink ListHead) ListHead)"

definition IsListEmpty :: "memory \<Rightarrow> address \<Rightarrow> stop + bool" where
  "IsListEmpty mem ListHead =
     and_then (load mem (Flink ListHead)) (\<lambda>first. Inr (first = ListHead))"

definition RemoveHeadList :: "memory \<Rightarrow> address \<Rightarrow> stop + address \<times> memory" where
  "RemoveHeadList mem ListHead =
     and_then (load mem (Flink ListHead)) (\<lambda>Entry.
     and_then (load mem (Flink Entry)) (\<lambda>NextEntry.
     and_then (load mem (Blink Entry)) (\<lambda>EntryBlink.
     and_then (load mem (Blink NextEntry)) (\<lambda>NextBlink.
       if EntryBlink \<noteq> ListHead \<or> NextBlink \<noteq> Entry then Inl ListEntryCorrupt
       else
     and_then (store mem (Flink ListHead) NextEntry) (\<lambda>mem.
     and_then (store mem (Blink NextEntry) ListHead) (\<lambda>mem.
       Inr (Entry, mem)))))))"

definition InsertTailList :: "memory \<Rightarrow> address \<Rightarrow> address \<Rightarrow> stop + memory" where
  "InsertTailList mem ListHead Entry =
     and_then (load mem (Blink ListHead)) (\<lambda>PrevEntry.
     and_then (load mem (Flink PrevEntry)) (\<lambda>PrevFlink.
       if PrevFlink \<noteq> ListHead then Inl ListEntryCorrupt
       else
     and_then (store mem (Flink Entry) ListHead) (\<lambda>mem.
     and_then (store mem (Blink Entry) PrevEntry) (\<lambda>mem.
     and_then (store mem (Flink PrevEntry) Entry) (\<lambda>mem.
       store mem (Blink ListHead) Entry)))))"

text \<open>
  The spin lock is one cell: \<open>KeAcquireSpinLock\<close> returns with the cell set, and
  \<open>KeReleaseSpinLock\<close> clears it.
\<close>

definition KeAcquireSpinLock_at :: "memory \<Rightarrow> address \<Rightarrow> stop + memory" where
  "KeAcquireSpinLock_at mem SpinLock = store mem SpinLock 1"

definition KeReleaseSpinLock_at :: "memory \<Rightarrow> address \<Rightarrow> stop + memory" where
  "KeReleaseSpinLock_at mem SpinLock = store mem SpinLock 0"

subsection \<open>The driver context and the policy in memory\<close>

text \<open>
  \<open>DRIVER_CONTEXT\<close> holds the driver handle at offset 0, the lock at offset 8 and the list
  head at offset 16. The fields of a policy are read from the two cells at its address.
  The enumerators of \<open>SECUREHOST_DEVICE_TYPE\<close> have the values the source gives them.
\<close>

definition PolicyLock_of :: "address \<Rightarrow> address" where
  "PolicyLock_of Context = Context + 8"

definition PolicyList_of :: "address \<Rightarrow> address" where
  "PolicyList_of Context = Context + 16"

definition DeviceType_field :: "64 word \<Rightarrow> 32 word" where
  "DeviceType_field cell = ucast cell"

definition ProcessId_field :: "64 word \<Rightarrow> 32 word" where
  "ProcessId_field cell = ucast (drop_bit 32 cell)"

definition Allowed_field :: "64 word \<Rightarrow> 8 word" where
  "Allowed_field cell = ucast cell"

fun device_type_value :: "SECUREHOST_DEVICE_TYPE \<Rightarrow> 32 word" where
  "device_type_value DeviceTypeCamera = 1"
| "device_type_value DeviceTypeMicrophone = 2"
| "device_type_value DeviceTypeUSB = 3"
| "device_type_value DeviceTypeBluetooth = 4"
| "device_type_value DeviceTypeUnknown = 0"

subsection \<open>SecureHostCheckDeviceAccess on memory\<close>

text \<open>
  The \<open>for\<close> loop, from the entry it stands at. The cell at the entry's address gives
  \<open>DeviceType\<close> and \<open>ProcessId\<close> of the policy and is the \<open>Flink\<close> the loop goes on with.
  The loop need not end (the links may lead round a cycle that misses the head), so it runs
  on fuel: \<open>None\<close> is a run that has not returned when the fuel is used up.
\<close>

fun policy_walk ::
  "nat \<Rightarrow> memory \<Rightarrow> address \<Rightarrow> address \<Rightarrow> 32 word \<Rightarrow> 32 word \<Rightarrow> (stop + NTSTATUS) option"
where
  "policy_walk 0 mem ListHead entry DeviceType' ProcessId' = None"
| "policy_walk (Suc fuel) mem ListHead entry DeviceType' ProcessId' =
     (if entry = ListHead then Some (Inr STATUS_ACCESS_DENIED)
      else case load mem entry of
             Inl e \<Rightarrow> Some (Inl e)
           | Inr cell0 \<Rightarrow>
               if DeviceType_field cell0 = DeviceType' \<and>
                  (ProcessId_field cell0 = 0 \<or> ProcessId_field cell0 = ProcessId')
               then (case load mem (entry + 8) of
                       Inl e \<Rightarrow> Some (Inl e)
                     | Inr cell1 \<Rightarrow>
                         if Allowed_field cell1 \<noteq> 0 then Some (Inr STATUS_SUCCESS)
                         else policy_walk fuel mem ListHead cell0 DeviceType' ProcessId')
               else policy_walk fuel mem ListHead cell0 DeviceType' ProcessId')"

definition SecureHostCheckDeviceAccess_mem ::
  "nat \<Rightarrow> memory \<Rightarrow> address \<Rightarrow> SECUREHOST_DEVICE_TYPE \<Rightarrow> 32 word \<Rightarrow>
   (stop + NTSTATUS \<times> memory) option"
where
  "SecureHostCheckDeviceAccess_mem fuel mem Context DeviceType' ProcessId' =
     (case KeAcquireSpinLock_at mem (PolicyLock_of Context) of
        Inl e \<Rightarrow> Some (Inl e)
      | Inr mem \<Rightarrow>
     (case load mem (Flink (PolicyList_of Context)) of
        Inl e \<Rightarrow> Some (Inl e)
      | Inr entry \<Rightarrow>
     (case policy_walk fuel mem (PolicyList_of Context) entry
             (device_type_value DeviceType') ProcessId' of
        None \<Rightarrow> None
      | Some (Inl e) \<Rightarrow> Some (Inl e)
      | Some (Inr status) \<Rightarrow>
     (case KeReleaseSpinLock_at mem (PolicyLock_of Context) of
        Inl e \<Rightarrow> Some (Inl e)
      | Inr mem \<Rightarrow> Some (Inr (status, mem))))))"

definition returned_status :: "(stop + NTSTATUS \<times> memory) option \<Rightarrow> (stop + NTSTATUS) option" where
  "returned_status r = map_option (map_sum id fst) r"

subsection \<open>SecureHostDriverCleanup\<close>

text \<open>
  The \<open>while\<close> loop of the cleanup callback, on fuel. The last argument is the sequence of
  addresses handed to \<open>ExFreePoolWithTag\<close> so far.
\<close>

fun cleanup_loop ::
  "nat \<Rightarrow> memory \<Rightarrow> address \<Rightarrow> address list \<Rightarrow> (stop + memory \<times> address list) option"
where
  "cleanup_loop 0 mem ListHead freed = None"
| "cleanup_loop (Suc fuel) mem ListHead freed =
     (case IsListEmpty mem ListHead of
        Inl e \<Rightarrow> Some (Inl e)
      | Inr True \<Rightarrow> Some (Inr (mem, freed))
      | Inr False \<Rightarrow>
          (case RemoveHeadList mem ListHead of
             Inl e \<Rightarrow> Some (Inl e)
           | Inr (entry, mem) \<Rightarrow> cleanup_loop fuel mem ListHead (freed @ [entry])))"

definition SecureHostDriverCleanup ::
  "nat \<Rightarrow> memory \<Rightarrow> address \<Rightarrow> (stop + memory \<times> address list) option"
where
  "SecureHostDriverCleanup fuel mem Context = cleanup_loop fuel mem (PolicyList_of Context) []"

subsection \<open>The writer of the policy store, on memory\<close>

text \<open>
  Modelled from the spec: the driver source holds no routine that inserts a policy. The
  spec's \<open>insert(rule)\<close> appends a rule, which the caller has allocated and filled, to the
  tail of the collection; on this list that is \<open>InsertTailList\<close> of the rule's address.
  \<open>policy_cells\<close> are the two leading cells of a policy as the struct lays its fields out
  (with an empty process name), and \<open>write_policy\<close> is the caller filling a block.
\<close>

definition PolicyInsert_at :: "memory \<Rightarrow> address \<Rightarrow> address \<Rightarrow> stop + memory" where
  "PolicyInsert_at mem Context rule = InsertTailList mem (PolicyList_of Context) rule"

fun insert_all :: "memory \<Rightarrow> address \<Rightarrow> address list \<Rightarrow> stop + memory" where
  "insert_all mem Context [] = Inr mem"
| "insert_all mem Context (rule # rules) =
     and_then (PolicyInsert_at mem Context rule) (\<lambda>mem. insert_all mem Context rules)"

definition policy_cells :: "SECUREHOST_DEVICE_POLICY \<Rightarrow> 64 word \<times> 64 word" where
  "policy_cells policy =
     (ucast (device_type_value (DeviceType policy)) OR push_bit 32 (ucast (ProcessId policy)),
      ucast (Allowed policy))"

definition write_policy :: "memory \<Rightarrow> address \<Rightarrow> SECUREHOST_DEVICE_POLICY \<Rightarrow> stop + memory" where
  "write_policy mem a policy =
     and_then (store mem a (fst (policy_cells policy))) (\<lambda>mem.
       store mem (a + 8) (snd (policy_cells policy)))"

subsection \<open>Linked lists in memory\<close>

text \<open>
  \<open>chain mem ListHead p es\<close>: from the node \<open>p\<close> the forward links run through the entries
  \<open>es\<close> and back to the head, and each backward link points to the node before.
  \<open>linked_list mem ListHead es\<close>: the list at \<open>ListHead\<close> consists of the entries \<open>es\<close>, in
  this order; the nodes are distinct, 8-byte aligned, and no node lies on the second cell of
  another.
\<close>

fun chain :: "memory \<Rightarrow> address \<Rightarrow> address \<Rightarrow> address list \<Rightarrow> bool" where
  "chain mem ListHead p [] = (mem p = Some ListHead \<and> mem (ListHead + 8) = Some p)"
| "chain mem ListHead p (e # es) =
     (mem p = Some e \<and> mem (e + 8) = Some p \<and> chain mem ListHead e es)"

definition linked_list :: "memory \<Rightarrow> address \<Rightarrow> address list \<Rightarrow> bool" where
  "linked_list mem ListHead es =
     (chain mem ListHead ListHead es \<and> distinct (ListHead # es) \<and>
      (\<forall>n \<in> set (ListHead # es). n AND 7 = 0 \<and> (\<forall>m \<in> set (ListHead # es). n + 8 \<noteq> m)))"

subsection \<open>A memory to instantiate the list with\<close>

text \<open>
  A driver context at \<open>0xFFFFA00000001000\<close> (its list head is at offset \<open>0x10\<close>) and two
  pool blocks for policies. Store 1 is the spec's device scenario: the list is initialised,
  block 1 is filled with the rule (camera, any subject, Allow) and inserted. Store 2 has the
  two blocks inserted and the rules (camera, any subject, Deny) and (camera, any subject,
  Allow) written into them afterwards. Store 3 has the same two rules written first and
  inserted then.
\<close>

definition example_context :: address where
  "example_context = 0xFFFFA00000001000"

definition example_block1 :: address where
  "example_block1 = 0xFFFFA00000002000"

definition example_block2 :: address where
  "example_block2 = 0xFFFFA00000003000"

definition example_memory :: memory where
  "example_memory =
     map_of [(0xFFFFA00000001000, 0), (0xFFFFA00000001008, 0),
             (0xFFFFA00000001010, 0), (0xFFFFA00000001018, 0),
             (0xFFFFA00000002000, 0), (0xFFFFA00000002008, 0),
             (0xFFFFA00000003000, 0), (0xFFFFA00000003008, 0)]"

definition camera_allow :: SECUREHOST_DEVICE_POLICY where
  "camera_allow = \<lparr>DeviceType = DeviceTypeCamera, ProcessId = 0, Allowed = 1, ProcessName = []\<rparr>"

definition camera_deny :: SECUREHOST_DEVICE_POLICY where
  "camera_deny = \<lparr>DeviceType = DeviceTypeCamera, ProcessId = 0, Allowed = 0, ProcessName = []\<rparr>"

definition example_store1 :: "stop + memory" where
  "example_store1 =
     and_then (InitializeListHead_at example_memory (PolicyList_of example_context)) (\<lambda>mem.
     and_then (write_policy mem example_block1 camera_allow) (\<lambda>mem.
       PolicyInsert_at mem example_context example_block1))"

definition example_store2 :: "stop + memory" where
  "example_store2 =
     and_then (InitializeListHead_at example_memory (PolicyList_of example_context)) (\<lambda>mem.
     and_then (PolicyInsert_at mem example_context example_block1) (\<lambda>mem.
     and_then (PolicyInsert_at mem example_context example_block2) (\<lambda>mem.
     and_then (write_policy mem example_block1 camera_deny) (\<lambda>mem.
       write_policy mem example_block2 camera_allow))))"

definition example_store3 :: "stop + memory" where
  "example_store3 =
     and_then (InitializeListHead_at example_memory (PolicyList_of example_context)) (\<lambda>mem.
     and_then (write_policy mem example_block1 camera_deny) (\<lambda>mem.
     and_then (write_policy mem example_block2 camera_allow) (\<lambda>mem.
       insert_all mem example_context [example_block1, example_block2])))"

section \<open>SecureHostWFP: the network policy enforcement driver\<close>

subsection \<open>Data\<close>

type_synonym GUID = "128 word"

definition SECUREHOST_WFP_CALLOUT_V4_GUID :: GUID where
  "SECUREHOST_WFP_CALLOUT_V4_GUID = 0xe5f6a7b8c9d08e9f2a3b4c5d6e7f8a9b"

definition SECUREHOST_WFP_CALLOUT_V6_GUID :: GUID where
  "SECUREHOST_WFP_CALLOUT_V6_GUID = 0xf6a7b8c9d0e19f0a3b4c5d6e7f8a9b0c"

definition SECUREHOST_WFP_SUBLAYER_GUID :: GUID where
  "SECUREHOST_WFP_SUBLAYER_GUID = 0xa7b8c9d0e1f20a1b4c5d6e7f8a9b0c1d"

record SECUREHOST_POLICY_RULE =
  RuleId :: "64 word"
  ProcessId_rule :: "32 word"
  Protocol :: "16 word"
  LocalPort :: "16 word"
  RemotePort :: "16 word"
  Action :: "32 word"
  Enabled :: "8 word"

text \<open>\<open>EngineHandle\<close> is \<open>NULL\<close> (0) when no engine session is held.\<close>

record SECUREHOST_DRIVER_CONTEXT =
  Driver_wfp :: HANDLE
  EngineHandle :: HANDLE
  CalloutIdV4 :: "32 word"
  CalloutIdV6 :: "32 word"
  FilterIdV4 :: "32 word"
  FilterIdV6 :: "32 word"
  RulesLock :: KSPIN_LOCK
  RulesList :: "SECUREHOST_POLICY_RULE list"
  NextRuleId :: "64 word"

definition NULL :: HANDLE where
  "NULL = 0"

text \<open>
  DriverEntry, the part that initialises the context before the callouts are registered:
  the context is zeroed, then the driver handle, the lock, the list head and the next rule
  id are set.
\<close>

definition DriverEntry_wfp_context :: "HANDLE \<Rightarrow> SECUREHOST_DRIVER_CONTEXT" where
  "DriverEntry_wfp_context driver =
     \<lparr>Driver_wfp = driver, EngineHandle = NULL, CalloutIdV4 = 0, CalloutIdV6 = 0,
      FilterIdV4 = 0, FilterIdV6 = 0, RulesLock = KeInitializeSpinLock,
      RulesList = InitializeListHead, NextRuleId = 1\<rparr>"

subsection \<open>The host's filtering platform\<close>

text \<open>
  Modelled from the spec: the filtering platform is the host's, outside the driver source.
  The spec names what the registration works against: a handle to the host's policy engine,
  a host-side transaction, the registered hooks, each with an identifier the host hands out,
  and the supporting management objects (priority group and per-hook descriptors) added
  inside the transaction. The host state below holds just these, and the sequence of calls
  the driver has made. Whether a call that can fail succeeds is the host's choice: each such
  function takes the host's reply (the status and, for a success, the value written to the
  out parameter). A reply that is a failure changes nothing but the call sequence.
\<close>

datatype wfp_call =
    EngineOpen_call
  | TransactionBegin_call HANDLE
  | CalloutRegister_call GUID
  | CalloutUnregisterById_call "32 word"
  | SubLayerAdd_call HANDLE GUID
  | CalloutAdd_call HANDLE GUID
  | TransactionCommit_call HANDLE
  | TransactionAbort_call HANDLE
  | EngineClose_call HANDLE

record wfp_host =
  sessions :: "HANDLE list"
  transaction :: "HANDLE option"
  callouts :: "32 word list"
  objects :: "GUID list"
  pending :: "GUID list"
  calls :: "wfp_call list"

definition STATUS_FWP_CALLOUT_NOT_FOUND :: NTSTATUS where
  "STATUS_FWP_CALLOUT_NOT_FOUND = 0xC0220001"

definition called :: "wfp_call \<Rightarrow> wfp_host \<Rightarrow> wfp_host" where
  "called c host = host\<lparr>calls := calls host @ [c]\<rparr>"

definition FwpmEngineOpen0 ::
  "NTSTATUS \<times> HANDLE \<Rightarrow> wfp_host \<Rightarrow> (NTSTATUS \<times> HANDLE option) \<times> wfp_host"
where
  "FwpmEngineOpen0 reply host =
     (let host = called EngineOpen_call host
      in if NT_SUCCESS (fst reply)
         then ((fst reply, Some (snd reply)), host\<lparr>sessions := sessions host @ [snd reply]\<rparr>)
         else ((fst reply, None), host))"

definition FwpmTransactionBegin0 :: "NTSTATUS \<Rightarrow> HANDLE \<Rightarrow> wfp_host \<Rightarrow> NTSTATUS \<times> wfp_host" where
  "FwpmTransactionBegin0 reply engineHandle host =
     (let host = called (TransactionBegin_call engineHandle) host
      in if NT_SUCCESS reply then (reply, host\<lparr>transaction := Some engineHandle\<rparr>)
         else (reply, host))"

definition FwpsCalloutRegister3 ::
  "NTSTATUS \<times> 32 word \<Rightarrow> GUID \<Rightarrow> wfp_host \<Rightarrow> (NTSTATUS \<times> 32 word option) \<times> wfp_host"
where
  "FwpsCalloutRegister3 reply calloutKey host =
     (let host = called (CalloutRegister_call calloutKey) host
      in if NT_SUCCESS (fst reply)
         then ((fst reply, Some (snd reply)), host\<lparr>callouts := callouts host @ [snd reply]\<rparr>)
         else ((fst reply, None), host))"

definition FwpsCalloutUnregisterById0 :: "32 word \<Rightarrow> wfp_host \<Rightarrow> NTSTATUS \<times> wfp_host" where
  "FwpsCalloutUnregisterById0 calloutId host =
     (let host = called (CalloutUnregisterById_call calloutId) host
      in if calloutId \<in> set (callouts host)
         then (STATUS_SUCCESS, host\<lparr>callouts := removeAll calloutId (callouts host)\<rparr>)
         else (STATUS_FWP_CALLOUT_NOT_FOUND, host))"

definition add_object :: "HANDLE \<Rightarrow> GUID \<Rightarrow> wfp_host \<Rightarrow> wfp_host" where
  "add_object engineHandle key host =
     (if transaction host = Some engineHandle
      then host\<lparr>pending := pending host @ [key]\<rparr>
      else host\<lparr>objects := objects host @ [key]\<rparr>)"

definition FwpmSubLayerAdd0 :: "NTSTATUS \<Rightarrow> HANDLE \<Rightarrow> GUID \<Rightarrow> wfp_host \<Rightarrow> NTSTATUS \<times> wfp_host" where
  "FwpmSubLayerAdd0 reply engineHandle subLayerKey host =
     (let host = called (SubLayerAdd_call engineHandle subLayerKey) host
      in if NT_SUCCESS reply then (reply, add_object engineHandle subLayerKey host)
         else (reply, host))"

definition FwpmCalloutAdd0 :: "NTSTATUS \<Rightarrow> HANDLE \<Rightarrow> GUID \<Rightarrow> wfp_host \<Rightarrow> NTSTATUS \<times> wfp_host" where
  "FwpmCalloutAdd0 reply engineHandle calloutKey host =
     (let host = called (CalloutAdd_call engineHandle calloutKey) host
      in if NT_SUCCESS reply then (reply, add_object engineHandle calloutKey host)
         else (reply, host))"

definition FwpmTransactionCommit0 :: "NTSTATUS \<Rightarrow> HANDLE \<Rightarrow> wfp_host \<Rightarrow> NTSTATUS \<times> wfp_host" where
  "FwpmTransactionCommit0 reply engineHandle host =
     (let host = called (TransactionCommit_call engineHandle) host
      in if NT_SUCCESS reply \<and> transaction host = Some engineHandle
         then (reply, host\<lparr>objects := objects host @ pending host, pending := [],
                           transaction := None\<rparr>)
         else (reply, host))"

definition discard_transaction :: "HANDLE \<Rightarrow> wfp_host \<Rightarrow> wfp_host" where
  "discard_transaction engineHandle host =
     (if transaction host = Some engineHandle
      then host\<lparr>pending := [], transaction := None\<rparr>
      else host)"

definition FwpmTransactionAbort0 :: "HANDLE \<Rightarrow> wfp_host \<Rightarrow> wfp_host" where
  "FwpmTransactionAbort0 engineHandle host =
     discard_transaction engineHandle (called (TransactionAbort_call engineHandle) host)"

text \<open>Closing a session ends a transaction still in progress on it.\<close>

definition FwpmEngineClose0 :: "HANDLE \<Rightarrow> wfp_host \<Rightarrow> wfp_host" where
  "FwpmEngineClose0 engineHandle host =
     (let host = discard_transaction engineHandle (called (EngineClose_call engineHandle) host)
      in host\<lparr>sessions := removeAll engineHandle (sessions host)\<rparr>)"

text \<open>The host's replies to the eight calls of one registration that can fail.\<close>

record wfp_replies =
  EngineOpen_reply :: "NTSTATUS \<times> HANDLE"
  TransactionBegin_reply :: NTSTATUS
  CalloutRegisterV4_reply :: "NTSTATUS \<times> 32 word"
  CalloutRegisterV6_reply :: "NTSTATUS \<times> 32 word"
  SubLayerAdd_reply :: NTSTATUS
  CalloutAddV4_reply :: NTSTATUS
  CalloutAddV6_reply :: NTSTATUS
  TransactionCommit_reply :: NTSTATUS

subsection \<open>SecureHostRegisterCallouts\<close>

text \<open>The code at the label \<open>cleanup\<close>.\<close>

definition register_cleanup ::
  "NTSTATUS \<Rightarrow> SECUREHOST_DRIVER_CONTEXT \<Rightarrow> wfp_host \<Rightarrow>
   NTSTATUS \<times> SECUREHOST_DRIVER_CONTEXT \<times> wfp_host"
where
  "register_cleanup status Context host =
     (if EngineHandle Context \<noteq> NULL
      then (status, Context\<lparr>EngineHandle := NULL\<rparr>, FwpmEngineClose0 (EngineHandle Context) host)
      else (status, Context, host))"

definition SecureHostRegisterCallouts ::
  "wfp_replies \<Rightarrow> SECUREHOST_DRIVER_CONTEXT \<Rightarrow> wfp_host \<Rightarrow>
   NTSTATUS \<times> SECUREHOST_DRIVER_CONTEXT \<times> wfp_host"
where
  "SecureHostRegisterCallouts r Context host =
    (let ((status, opened), host) = FwpmEngineOpen0 (EngineOpen_reply r) host;
         Context = (case opened of Some h \<Rightarrow> Context\<lparr>EngineHandle := h\<rparr> | None \<Rightarrow> Context)
     in if \<not> NT_SUCCESS status then register_cleanup status Context host
     else
     let (status, host) = FwpmTransactionBegin0 (TransactionBegin_reply r) (EngineHandle Context) host
     in if \<not> NT_SUCCESS status then register_cleanup status Context host
     else
     let ((status, calloutId), host) =
           FwpsCalloutRegister3 (CalloutRegisterV4_reply r) SECUREHOST_WFP_CALLOUT_V4_GUID host;
         Context = (case calloutId of Some i \<Rightarrow> Context\<lparr>CalloutIdV4 := i\<rparr> | None \<Rightarrow> Context)
     in if \<not> NT_SUCCESS status
        then (let host = FwpmTransactionAbort0 (EngineHandle Context) host
              in register_cleanup status Context host)
     else
     let ((status, calloutId), host) =
           FwpsCalloutRegister3 (CalloutRegisterV6_reply r) SECUREHOST_WFP_CALLOUT_V6_GUID host;
         Context = (case calloutId of Some i \<Rightarrow> Context\<lparr>CalloutIdV6 := i\<rparr> | None \<Rightarrow> Context)
     in if \<not> NT_SUCCESS status
        then (let host = snd (FwpsCalloutUnregisterById0 (CalloutIdV4 Context) host);
                  host = FwpmTransactionAbort0 (EngineHandle Context) host
              in register_cleanup status Context host)
     else
     let (status, host) =
           FwpmSubLayerAdd0 (SubLayerAdd_reply r) (EngineHandle Context) SECUREHOST_WFP_SUBLAYER_GUID host
     in if \<not> NT_SUCCESS status
        then (let host = snd (FwpsCalloutUnregisterById0 (CalloutIdV4 Context) host);
                  host = snd (FwpsCalloutUnregisterById0 (CalloutIdV6 Context) host);
                  host = FwpmTransactionAbort0 (EngineHandle Context) host
              in register_cleanup status Context host)
     else
     let (status, host) =
           FwpmCalloutAdd0 (CalloutAddV4_reply r) (EngineHandle Context) SECUREHOST_WFP_CALLOUT_V4_GUID host
     in if \<not> NT_SUCCESS status
        then (let host = snd (FwpsCalloutUnregisterById0 (CalloutIdV4 Context) host);
                  host = snd (FwpsCalloutUnregisterById0 (CalloutIdV6 Context) host);
                  host = FwpmTransactionAbort0 (EngineHandle Context) host
              in register_cleanup status Context host)
     else
     let (status, host) =
           FwpmCalloutAdd0 (CalloutAddV6_reply r) (EngineHandle Context) SECUREHOST_WFP_CALLOUT_V6_GUID host
     in if \<not> NT_SUCCESS status
        then (let host = snd (FwpsCalloutUnregisterById0 (CalloutIdV4 Context) host);
                  host = snd (FwpsCalloutUnregisterById0 (CalloutIdV6 Context) host);
                  host = FwpmTransactionAbort0 (EngineHandle Context) host
              in register_cleanup status Context host)
     else
     let (status, host) = FwpmTransactionCommit0 (TransactionCommit_reply r) (EngineHandle Context) host
     in if \<not> NT_SUCCESS status
        then (let host = snd (FwpsCalloutUnregisterById0 (CalloutIdV4 Context) host);
                  host = snd (FwpsCalloutUnregisterById0 (CalloutIdV6 Context) host)
              in register_cleanup status Context host)
     else (STATUS_SUCCESS, Context, host))"

subsection \<open>SecureHostUnregisterCallouts\<close>

definition SecureHostUnregisterCallouts ::
  "SECUREHOST_DRIVER_CONTEXT \<Rightarrow> wfp_host \<Rightarrow> NTSTATUS \<times> SECUREHOST_DRIVER_CONTEXT \<times> wfp_host"
where
  "SecureHostUnregisterCallouts Context host =
     (let host = (if CalloutIdV4 Context \<noteq> 0
                  then snd (FwpsCalloutUnregisterById0 (CalloutIdV4 Context) host) else host);
          host = (if CalloutIdV6 Context \<noteq> 0
                  then snd (FwpsCalloutUnregisterById0 (CalloutIdV6 Context) host) else host)
      in if EngineHandle Context \<noteq> NULL
         then (STATUS_SUCCESS, Context\<lparr>EngineHandle := NULL\<rparr>,
               FwpmEngineClose0 (EngineHandle Context) host)
         else (STATUS_SUCCESS, Context, host))"

subsection \<open>SecureHostClassifyFn\<close>

text \<open>
  The structures of fwpsk.h and fwptypes.h, with the fields the callback reads or writes
  and a few of their neighbours. \<open>FWP_VALUE0\<close> is a type tag and a union; the union is
  held as its 64 bits, of which the member \<open>uint16\<close> is the low 16 and \<open>uint8\<close> the low 8.
  \<open>incomingValue\<close> is the array the host passes, with as many elements as the list has.
\<close>

record FWP_VALUE0 =
  value_type :: "32 word"
  value_bits :: "64 word"

definition uint16 :: "FWP_VALUE0 \<Rightarrow> 16 word" where
  "uint16 v = ucast (value_bits v)"

definition uint8 :: "FWP_VALUE0 \<Rightarrow> 8 word" where
  "uint8 v = ucast (value_bits v)"

record FWPS_INCOMING_VALUES0 =
  layerId :: "16 word"
  incomingValue :: "FWP_VALUE0 list"

record FWPS_INCOMING_METADATA_VALUES0 =
  currentMetadataValues :: "32 word"
  processId :: "64 word"

record FWPS_FILTER3 =
  filterId_filter :: "64 word"
  subLayerWeight :: "16 word"
  flags_filter :: "16 word"

record FWPS_CLASSIFY_OUT0 =
  actionType :: "32 word"
  outContext :: "64 word"
  filterId :: "64 word"
  rights :: "32 word"
  flags :: "32 word"
  reserved :: "32 word"

text \<open>Constants and the presence macro of the platform headers, with the headers' values.\<close>

definition FWP_ACTION_FLAG_TERMINATING :: "32 word" where
  "FWP_ACTION_FLAG_TERMINATING = 0x00001000"

definition FWP_ACTION_BLOCK :: "32 word" where
  "FWP_ACTION_BLOCK = (0x00000001 OR FWP_ACTION_FLAG_TERMINATING)"

definition FWP_ACTION_PERMIT :: "32 word" where
  "FWP_ACTION_PERMIT = (0x00000002 OR FWP_ACTION_FLAG_TERMINATING)"

definition FWPS_RIGHT_ACTION_WRITE :: "32 word" where
  "FWPS_RIGHT_ACTION_WRITE = 0x00000001"

definition FWPS_FILTER_FLAG_CLEAR_ACTION_RIGHT :: "16 word" where
  "FWPS_FILTER_FLAG_CLEAR_ACTION_RIGHT = 0x0001"

definition FWPS_METADATA_FIELD_PROCESS_ID :: "32 word" where
  "FWPS_METADATA_FIELD_PROCESS_ID = 0x00000020"

definition FWPS_IS_METADATA_FIELD_PRESENT ::
  "FWPS_INCOMING_METADATA_VALUES0 \<Rightarrow> 32 word \<Rightarrow> bool"
where
  "FWPS_IS_METADATA_FIELD_PRESENT metadataValues metadataField =
     (currentMetadataValues metadataValues AND metadataField = metadataField)"

text \<open>
  The three indices into \<open>incomingValue\<close> that the callback uses are enumerators of the
  platform headers; they are taken as a parameter of the callback.
\<close>

record connect_field_indices =
  FWPS_FIELD_ALE_AUTH_CONNECT_V4_IP_LOCAL_PORT :: nat
  FWPS_FIELD_ALE_AUTH_CONNECT_V4_IP_REMOTE_PORT :: nat
  FWPS_FIELD_ALE_AUTH_CONNECT_V4_DIRECTION :: nat

text \<open>A read of the array past its end is a fault of the classification path.\<close>

datatype fault = AccessViolation

definition incoming_value_at :: "FWPS_INCOMING_VALUES0 \<Rightarrow> nat \<Rightarrow> fault + FWP_VALUE0" where
  "incoming_value_at InFixedValues i =
     (if i < length (incomingValue InFixedValues)
      then Inr (incomingValue InFixedValues ! i)
      else Inl AccessViolation)"

text \<open>
  What the callback can reach besides its arguments: the driver context (through the driver
  object) and the debugger output, to which \<open>KdPrint\<close> sends the connection line with the
  four extracted values.
\<close>

record connection_line =
  line_processId :: "32 word"
  line_localPort :: "16 word"
  line_remotePort :: "16 word"
  line_direction :: "32 word"

record wfp_state =
  wfp_context :: SECUREHOST_DRIVER_CONTEXT
  wfp_debug :: "connection_line list"

definition KdPrint_connection ::
  "32 word \<Rightarrow> 16 word \<Rightarrow> 16 word \<Rightarrow> 32 word \<Rightarrow> wfp_state \<Rightarrow> wfp_state"
where
  "KdPrint_connection processId' localPort remotePort direction s =
     s\<lparr>wfp_debug := wfp_debug s @
         [\<lparr>line_processId = processId', line_localPort = localPort,
           line_remotePort = remotePort, line_direction = direction\<rparr>]\<rparr>"

definition SecureHostClassifyFn ::
  "connect_field_indices \<Rightarrow> FWPS_INCOMING_VALUES0 \<Rightarrow> FWPS_INCOMING_METADATA_VALUES0 \<Rightarrow>
   FWPS_FILTER3 \<Rightarrow> FWPS_CLASSIFY_OUT0 \<Rightarrow> wfp_state \<Rightarrow> fault + (FWPS_CLASSIFY_OUT0 \<times> wfp_state)"
where
  "SecureHostClassifyFn ix InFixedValues InMetaValues Filter ClassifyOut s =
     (let processId' =
            (if FWPS_IS_METADATA_FIELD_PRESENT InMetaValues FWPS_METADATA_FIELD_PROCESS_ID
             then ucast (processId InMetaValues) else 0)
      in case incoming_value_at InFixedValues (FWPS_FIELD_ALE_AUTH_CONNECT_V4_IP_LOCAL_PORT ix) of
           Inl f \<Rightarrow> Inl f
         | Inr v1 \<Rightarrow>
      (case incoming_value_at InFixedValues (FWPS_FIELD_ALE_AUTH_CONNECT_V4_IP_REMOTE_PORT ix) of
           Inl f \<Rightarrow> Inl f
         | Inr v2 \<Rightarrow>
      (case incoming_value_at InFixedValues (FWPS_FIELD_ALE_AUTH_CONNECT_V4_DIRECTION ix) of
           Inl f \<Rightarrow> Inl f
         | Inr v3 \<Rightarrow>
      (let localPort = uint16 v1;
           remotePort = uint16 v2;
           direction = ucast (uint8 v3);
           ClassifyOut = ClassifyOut\<lparr>actionType := FWP_ACTION_PERMIT\<rparr>;
           s = KdPrint_connection processId' localPort remotePort direction s;
           ClassifyOut =
             (if flags_filter Filter AND FWPS_FILTER_FLAG_CLEAR_ACTION_RIGHT \<noteq> 0
              then ClassifyOut\<lparr>rights := rights ClassifyOut AND NOT FWPS_RIGHT_ACTION_WRITE\<rparr>
              else ClassifyOut)
       in Inr (ClassifyOut, s)))))"

text \<open>
  A connect-attempt event: the host passes the array with every field of the layer, so each
  of the three indices is inside it.
\<close>

definition connect_event :: "connect_field_indices \<Rightarrow> FWPS_INCOMING_VALUES0 \<Rightarrow> bool" where
  "connect_event ix InFixedValues =
     (FWPS_FIELD_ALE_AUTH_CONNECT_V4_IP_LOCAL_PORT ix < length (incomingValue InFixedValues) \<and>
      FWPS_FIELD_ALE_AUTH_CONNECT_V4_IP_REMOTE_PORT ix < length (incomingValue InFixedValues) \<and>
      FWPS_FIELD_ALE_AUTH_CONNECT_V4_DIRECTION ix < length (incomingValue InFixedValues))"

subsection \<open>The steps of a registration and their unwinding\<close>

text \<open>
  The eight calls of \<open>SecureHostRegisterCallouts\<close> that can fail, in the order the routine
  makes them, the status the host replies to each, and the call that performs each. The
  handle in the calls after the first is the one the host returned when it opened the engine.
\<close>

datatype reg_step =
    Step_EngineOpen
  | Step_TransactionBegin
  | Step_RegisterV4
  | Step_RegisterV6
  | Step_SubLayerAdd
  | Step_CalloutAddV4
  | Step_CalloutAddV6
  | Step_TransactionCommit

definition registration_steps :: "reg_step list" where
  "registration_steps =
     [Step_EngineOpen, Step_TransactionBegin, Step_RegisterV4, Step_RegisterV6,
      Step_SubLayerAdd, Step_CalloutAddV4, Step_CalloutAddV6, Step_TransactionCommit]"

fun step_status :: "wfp_replies \<Rightarrow> reg_step \<Rightarrow> NTSTATUS" where
  "step_status r Step_EngineOpen = fst (EngineOpen_reply r)"
| "step_status r Step_TransactionBegin = TransactionBegin_reply r"
| "step_status r Step_RegisterV4 = fst (CalloutRegisterV4_reply r)"
| "step_status r Step_RegisterV6 = fst (CalloutRegisterV6_reply r)"
| "step_status r Step_SubLayerAdd = SubLayerAdd_reply r"
| "step_status r Step_CalloutAddV4 = CalloutAddV4_reply r"
| "step_status r Step_CalloutAddV6 = CalloutAddV6_reply r"
| "step_status r Step_TransactionCommit = TransactionCommit_reply r"

fun step_call :: "wfp_replies \<Rightarrow> reg_step \<Rightarrow> wfp_call" where
  "step_call r Step_EngineOpen = EngineOpen_call"
| "step_call r Step_TransactionBegin = TransactionBegin_call (snd (EngineOpen_reply r))"
| "step_call r Step_RegisterV4 = CalloutRegister_call SECUREHOST_WFP_CALLOUT_V4_GUID"
| "step_call r Step_RegisterV6 = CalloutRegister_call SECUREHOST_WFP_CALLOUT_V6_GUID"
| "step_call r Step_SubLayerAdd =
     SubLayerAdd_call (snd (EngineOpen_reply r)) SECUREHOST_WFP_SUBLAYER_GUID"
| "step_call r Step_CalloutAddV4 =
     CalloutAdd_call (snd (EngineOpen_reply r)) SECUREHOST_WFP_CALLOUT_V4_GUID"
| "step_call r Step_CalloutAddV6 =
     CalloutAdd_call (snd (EngineOpen_reply r)) SECUREHOST_WFP_CALLOUT_V6_GUID"
| "step_call r Step_TransactionCommit = TransactionCommit_call (snd (EngineOpen_reply r))"

definition first_failing_step :: "wfp_replies \<Rightarrow> reg_step option" where
  "first_failing_step r = List.find (\<lambda>k. \<not> NT_SUCCESS (step_status r k)) registration_steps"

definition completed_before :: "reg_step \<Rightarrow> reg_step list" where
  "completed_before k = takeWhile (\<lambda>s. s \<noteq> k) registration_steps"

text \<open>
  The call that undoes a completed step: a registered callout is unregistered by its id, the
  transaction is aborted, the engine is closed. The sublayer and the management callouts are
  added inside the transaction and go with it; they have no call of their own.
\<close>

fun step_undo :: "wfp_replies \<Rightarrow> reg_step \<Rightarrow> wfp_call list" where
  "step_undo r Step_EngineOpen = [EngineClose_call (snd (EngineOpen_reply r))]"
| "step_undo r Step_TransactionBegin = [TransactionAbort_call (snd (EngineOpen_reply r))]"
| "step_undo r Step_RegisterV4 = [CalloutUnregisterById_call (snd (CalloutRegisterV4_reply r))]"
| "step_undo r Step_RegisterV6 = [CalloutUnregisterById_call (snd (CalloutRegisterV6_reply r))]"
| "step_undo r Step_SubLayerAdd = []"
| "step_undo r Step_CalloutAddV4 = []"
| "step_undo r Step_CalloutAddV6 = []"
| "step_undo r Step_TransactionCommit = []"

text \<open>
  The unwinding after step \<open>k\<close> failed, along a given order of the steps: the undo calls
  of the steps completed before \<open>k\<close>, in that order. After a failed commit the transaction
  is not aborted (the spec says so too: the callouts are unregistered).
\<close>

definition unwind_along :: "reg_step list \<Rightarrow> wfp_replies \<Rightarrow> reg_step \<Rightarrow> wfp_call list" where
  "unwind_along order r k =
     concat (map (step_undo r)
       (filter (\<lambda>s. s \<in> set (completed_before k) \<and>
                     \<not> (k = Step_TransactionCommit \<and> s = Step_TransactionBegin)) order))"

text \<open>The spec's words: the completed steps are unwound in reverse order.\<close>

definition spec_reverse_order :: "reg_step list" where
  "spec_reverse_order = rev registration_steps"

text \<open>
  The order in which the failure branches of the routine unwind: the IPv4 callout, the IPv6
  callout, then the transaction, then the engine.
\<close>

definition code_unwind_order :: "reg_step list" where
  "code_unwind_order =
     [Step_RegisterV4, Step_RegisterV6, Step_SubLayerAdd, Step_CalloutAddV4, Step_CalloutAddV6,
      Step_TransactionBegin, Step_EngineOpen]"

subsection \<open>A host and its replies to instantiate the registration with\<close>

text \<open>
  A host with no session, transaction or callout, and replies that are all successes: the
  engine handle 7 and the callout ids 1 and 2.
\<close>

definition example_host :: wfp_host where
  "example_host =
     \<lparr>sessions = [], transaction = None, callouts = [], objects = [], pending = [],
      calls = []\<rparr>"

definition example_replies :: wfp_replies where
  "example_replies =
     \<lparr>EngineOpen_reply = (STATUS_SUCCESS, 7), TransactionBegin_reply = STATUS_SUCCESS,
      CalloutRegisterV4_reply = (STATUS_SUCCESS, 1), CalloutRegisterV6_reply = (STATUS_SUCCESS, 2),
      SubLayerAdd_reply = STATUS_SUCCESS, CalloutAddV4_reply = STATUS_SUCCESS,
      CalloutAddV6_reply = STATUS_SUCCESS, TransactionCommit_reply = STATUS_SUCCESS\<rparr>"

text \<open>The context and the host as a registration with these replies leaves them.\<close>

definition example_registered :: "NTSTATUS \<times> SECUREHOST_DRIVER_CONTEXT \<times> wfp_host" where
  "example_registered =
     SecureHostRegisterCallouts example_replies (DriverEntry_wfp_context 1) example_host"

definition STATUS_UNSUCCESSFUL :: NTSTATUS where
  "STATUS_UNSUCCESSFUL = 0xC0000001"

subsection \<open>A connect attempt to instantiate the callback with\<close>

text \<open>
  The descriptor of the spec's network scenario: process 100, local port 443, remote port
  51000, direction outbound (0). The array has three fields, at the indices 0, 1 and 2. The
  metadata comes in two forms, with and without the process id marked present. The output
  descriptor arrives with the write right and the action Block; the driver context holds one
  enabled rule that blocks process 100.
\<close>

definition example_indices :: connect_field_indices where
  "example_indices =
     \<lparr>FWPS_FIELD_ALE_AUTH_CONNECT_V4_IP_LOCAL_PORT = 0,
      FWPS_FIELD_ALE_AUTH_CONNECT_V4_IP_REMOTE_PORT = 1,
      FWPS_FIELD_ALE_AUTH_CONNECT_V4_DIRECTION = 2\<rparr>"

definition example_values :: FWPS_INCOMING_VALUES0 where
  "example_values =
     \<lparr>layerId = 0,
      incomingValue = [\<lparr>value_type = 2, value_bits = 443\<rparr>,
                       \<lparr>value_type = 2, value_bits = 51000\<rparr>,
                       \<lparr>value_type = 1, value_bits = 0\<rparr>]\<rparr>"

definition example_metadata :: FWPS_INCOMING_METADATA_VALUES0 where
  "example_metadata = \<lparr>currentMetadataValues = 0x20, processId = 100\<rparr>"

definition example_metadata_no_pid :: FWPS_INCOMING_METADATA_VALUES0 where
  "example_metadata_no_pid = \<lparr>currentMetadataValues = 0x02, processId = 100\<rparr>"

definition example_filter :: "16 word \<Rightarrow> FWPS_FILTER3" where
  "example_filter fl = \<lparr>filterId_filter = 5, subLayerWeight = 0x8000, flags_filter = fl\<rparr>"

definition example_out :: FWPS_CLASSIFY_OUT0 where
  "example_out =
     \<lparr>actionType = FWP_ACTION_BLOCK, outContext = 0, filterId = 0, rights = 0x0F,
      flags = 0, reserved = 0\<rparr>"

definition example_state :: "SECUREHOST_POLICY_RULE list \<Rightarrow> wfp_state" where
  "example_state rules =
     \<lparr>wfp_context = (DriverEntry_wfp_context 1)\<lparr>RulesList := rules\<rparr>, wfp_debug = []\<rparr>"

definition example_block_rule :: SECUREHOST_POLICY_RULE where
  "example_block_rule =
     \<lparr>RuleId = 1, ProcessId_rule = 100, Protocol = 6, LocalPort = 443, RemotePort = 51000,
      Action = FWP_ACTION_BLOCK, Enabled = 1\<rparr>"

section \<open>Properties of the device driver\<close>

lemma NT_SUCCESS_STATUS_SUCCESS: "NT_SUCCESS STATUS_SUCCESS"
  by (simp add: NT_SUCCESS_def STATUS_SUCCESS_def)

lemma not_NT_SUCCESS_STATUS_ACCESS_DENIED: "\<not> NT_SUCCESS STATUS_ACCESS_DENIED"
  by (simp add: NT_SUCCESS_def STATUS_ACCESS_DENIED_def)



lemma CheckDeviceAccess_status:
  "fst (SecureHostCheckDeviceAccess c dt pid) = fst (policy_scan (PolicyList c) 0 dt pid)"
  by (simp add: SecureHostCheckDeviceAccess_def Let_def)

subsection \<open>The dispatcher\<close>







subsection \<open>The process name and the frame of the lookup\<close>

lemma policy_scan_fields_only:
  "list_all2 (\<lambda>p q. DeviceType p = DeviceType q \<and> ProcessId p = ProcessId q \<and>
                    Allowed p = Allowed q) ps qs \<Longrightarrow>
   policy_scan ps i dt pid = policy_scan qs i dt pid"
proof (induction ps qs arbitrary: i rule: list_all2_induct)
  case Nil
  then show ?case by simp
next
  case (Cons p ps q qs)
  then show ?case by auto
qed

text \<open>
  Claim C9. Two policy stores whose rules agree, position by position, in device type,
  process id and verdict (so they differ in the process names at most) give the same status
  for every query.
\<close>

theorem process_name_no_influence:
  assumes "list_all2 (\<lambda>p q. DeviceType p = DeviceType q \<and> ProcessId p = ProcessId q \<and>
                           Allowed p = Allowed q) (PolicyList c1) (PolicyList c2)"
  shows "fst (SecureHostCheckDeviceAccess c1 dt pid) = fst (SecureHostCheckDeviceAccess c2 dt pid)"
  using policy_scan_fields_only [OF assms] by (simp add: CheckDeviceAccess_status)

text \<open>The theorem at two one-rule stores with different process names.\<close>

theorem process_name_no_influence_witness:
  "fst (SecureHostCheckDeviceAccess
      \<lparr>Driver = 1, PolicyLock = False, PolicyList =
         [\<lparr>DeviceType = DeviceTypeUSB, ProcessId = 7, Allowed = 1, ProcessName = [0x61, 0x62]\<rparr>]\<rparr>
      DeviceTypeUSB 7) =
   fst (SecureHostCheckDeviceAccess
      \<lparr>Driver = 1, PolicyLock = False, PolicyList =
         [\<lparr>DeviceType = DeviceTypeUSB, ProcessId = 7, Allowed = 1, ProcessName = [0x7A]\<rparr>]\<rparr>
      DeviceTypeUSB 7)"
  by (rule process_name_no_influence) simp

text \<open>
  Claim C10. \<open>SecureHostCheckDeviceAccess\<close> leaves the policy list and the driver handle of
  the context as they were, and returns with the lock released; a context whose lock was free
  at the call is returned unchanged in every field.
\<close>

theorem check_device_access_pure_read:
  "PolicyList (snd (SecureHostCheckDeviceAccess Context dt pid)) = PolicyList Context \<and>
   Driver (snd (SecureHostCheckDeviceAccess Context dt pid)) = Driver Context \<and>
   \<not> PolicyLock (snd (SecureHostCheckDeviceAccess Context dt pid)) \<and>
   (\<not> PolicyLock Context \<longrightarrow> snd (SecureHostCheckDeviceAccess Context dt pid) = Context)"
  by (simp add: SecureHostCheckDeviceAccess_def Let_def KeReleaseSpinLock_def KeAcquireSpinLock_def)

text \<open>The theorem at a context of two rules with the lock free.\<close>

theorem check_device_access_pure_read_witness:
  "snd (SecureHostCheckDeviceAccess
      \<lparr>Driver = 1, PolicyLock = False, PolicyList =
         [\<lparr>DeviceType = DeviceTypeUSB, ProcessId = 7, Allowed = 0, ProcessName = []\<rparr>,
          \<lparr>DeviceType = DeviceTypeUSB, ProcessId = 0, Allowed = 1, ProcessName = []\<rparr>]\<rparr>
      DeviceTypeUSB 7) =
   \<lparr>Driver = 1, PolicyLock = False, PolicyList =
         [\<lparr>DeviceType = DeviceTypeUSB, ProcessId = 7, Allowed = 0, ProcessName = []\<rparr>,
          \<lparr>DeviceType = DeviceTypeUSB, ProcessId = 0, Allowed = 1, ProcessName = []\<rparr>]\<rparr>"
  using check_device_access_pure_read [of
      "\<lparr>Driver = 1, PolicyLock = False, PolicyList =
         [\<lparr>DeviceType = DeviceTypeUSB, ProcessId = 7, Allowed = 0, ProcessName = []\<rparr>,
          \<lparr>DeviceType = DeviceTypeUSB, ProcessId = 0, Allowed = 1, ProcessName = []\<rparr>]\<rparr>"
      DeviceTypeUSB 7]
  by simp


section \<open>Properties of the policy list in memory\<close>

subsection \<open>The list functions on linked lists\<close>

lemma chain_upd:
  "a \<noteq> p \<Longrightarrow> a \<notin> set es \<Longrightarrow> a \<noteq> h + 8 \<Longrightarrow> a \<notin> (\<lambda>e. e + 8) ` set es \<Longrightarrow>
   chain (mem(a \<mapsto> v)) h p es = chain mem h p es"
  by (induction es arbitrary: p) auto

lemma plus8_neq [simp]: "(a::64 word) + 8 \<noteq> a" "a \<noteq> a + 8"
  by simp_all

lemma remove_head_step:
  assumes "linked_list mem h (e # es)"
  shows "\<exists>mem'. RemoveHeadList mem h = Inr (e, mem') \<and> linked_list mem' h es \<and>
           IsListEmpty mem h = Inr False \<and> dom mem' = dom mem"
proof (cases es)
  case Nil
  with assms show ?thesis
    by (auto simp: linked_list_def RemoveHeadList_def IsListEmpty_def and_then_def load_def store_def
        Flink_def Blink_def)
next
  case (Cons e2 es')
  from assms Cons have ch: "chain mem h e2 es'"
    and links: "mem h = Some e" "mem (e + 8) = Some h" "mem e = Some e2" "mem (e2 + 8) = Some e"
    and dist: "h \<noteq> e" "h \<noteq> e2" "h \<notin> set es'" "e2 \<notin> set es'" "e \<noteq> e2" "distinct es'"
    and sep: "\<forall>n \<in> set (h # e2 # es'). n AND 7 = 0 \<and> (\<forall>m \<in> set (h # e2 # es'). n + 8 \<noteq> m)"
    by (auto simp: linked_list_def)
  have a1: "e2 + 8 \<noteq> e2" "e2 + 8 \<notin> set es'" "e2 + 8 \<noteq> h + 8" "e2 + 8 \<notin> (\<lambda>x. x + 8) ` set es'"
    using dist sep by auto
  have a2: "h \<noteq> e2" "h \<notin> set es'" "h \<noteq> h + 8" "h \<notin> (\<lambda>x. x + 8) ` set es'"
    using dist sep by auto
  have "chain (mem(h \<mapsto> e2, e2 + 8 \<mapsto> h)) h e2 es' = chain mem h e2 es'"
    by (simp only: chain_upd [OF a1] chain_upd [OF a2])
  with ch have ch': "chain (mem(h \<mapsto> e2, e2 + 8 \<mapsto> h)) h h (e2 # es')"
    using dist sep by auto
  have rm: "RemoveHeadList mem h = Inr (e, mem(h \<mapsto> e2, e2 + 8 \<mapsto> h))"
    using links dist
    by (simp add: RemoveHeadList_def and_then_def load_def store_def Flink_def Blink_def)
  have "linked_list (mem(h \<mapsto> e2, e2 + 8 \<mapsto> h)) h (e2 # es')"
    unfolding linked_list_def using ch' dist sep by auto
  moreover have "IsListEmpty mem h = Inr False"
    using links dist by (simp add: IsListEmpty_def and_then_def load_def Flink_def)
  moreover have "dom (mem(h \<mapsto> e2, e2 + 8 \<mapsto> h)) = dom mem"
    using links by auto
  ultimately show ?thesis using rm Cons by blast
qed

lemma empty_list_head:
  "linked_list mem h [] \<Longrightarrow> IsListEmpty mem h = Inr True"
  by (simp add: linked_list_def IsListEmpty_def and_then_def load_def Flink_def)

lemma cleanup_loop_drains:
  "linked_list mem h es \<Longrightarrow> length es < fuel \<Longrightarrow>
   \<exists>mem'. cleanup_loop fuel mem h freed = Some (Inr (mem', freed @ es)) \<and> linked_list mem' h [] \<and>
          dom mem' = dom mem"
proof (induction es arbitrary: mem fuel freed)
  case Nil
  then obtain n where "fuel = Suc n" by (cases fuel) auto
  with Nil show ?case by (auto simp: empty_list_head)
next
  case (Cons e es)
  then obtain n where n: "fuel = Suc n" "length es < n" by (cases fuel) auto
  from remove_head_step [OF Cons.prems(1)] obtain mem1 where
    st: "RemoveHeadList mem h = Inr (e, mem1)" "linked_list mem1 h es" "IsListEmpty mem h = Inr False"
      "dom mem1 = dom mem"
    by blast
  from Cons.IH [OF st(2) n(2), of "freed @ [e]"] obtain mem' where
    "cleanup_loop n mem1 h (freed @ [e]) = Some (Inr (mem', (freed @ [e]) @ es))" "linked_list mem' h []"
    "dom mem' = dom mem1"
    by blast
  with n st show ?case by auto
qed

lemma check_on_empty:
  assumes "linked_list mem (PolicyList_of c) []" and "mem (PolicyLock_of c) \<noteq> None"
  shows "\<exists>mem'. SecureHostCheckDeviceAccess_mem (Suc fuel) mem c dt pid =
            Some (Inr (STATUS_ACCESS_DENIED, mem')) \<and> linked_list mem' (PolicyList_of c) []"
  using assms
  by (auto simp: linked_list_def SecureHostCheckDeviceAccess_mem_def load_def store_def Flink_def
      KeAcquireSpinLock_at_def KeReleaseSpinLock_at_def PolicyLock_of_def PolicyList_of_def)

lemma chain_last:
  "chain mem h p es \<Longrightarrow> mem (h + 8) = Some (last (p # es)) \<and> mem (last (p # es)) = Some h"
  by (induction es arbitrary: p) auto

lemma chain_snoc:
  assumes "chain mem h p es"
    and "distinct (p # es)" and "h \<notin> set es" and "e \<notin> set (h # p # es)"
    and "\<forall>n \<in> set (h # e # p # es). \<forall>m \<in> set (h # e # p # es). n + 8 \<noteq> m"
  shows "chain (mem(e \<mapsto> h, e + 8 \<mapsto> last (p # es), last (p # es) \<mapsto> e, h + 8 \<mapsto> e)) h p (es @ [e])"
  using assms
proof (induction es arbitrary: p)
  case Nil
  then show ?case by auto
next
  case (Cons e1 es)
  let ?L = "last (e1 # es)"
  let ?mem' = "mem(e \<mapsto> h, e + 8 \<mapsto> ?L, ?L \<mapsto> e, h + 8 \<mapsto> e)"
  from Cons.prems have "chain mem h e1 es" "distinct (e1 # es)" "h \<notin> set es"
    "e \<notin> set (h # e1 # es)"
    "\<forall>n \<in> set (h # e # e1 # es). \<forall>m \<in> set (h # e # e1 # es). n + 8 \<noteq> m"
    by auto
  from Cons.IH [OF this] have ih: "chain ?mem' h e1 (es @ [e])" .
  have lastin: "?L \<in> set (e1 # es)" by (rule last_in_set) simp
  have p: "p \<noteq> ?L" "p \<noteq> e" "p \<noteq> e + 8" "p \<noteq> h + 8"
    using Cons.prems lastin by auto
  have e1: "e1 + 8 \<noteq> ?L" "e1 + 8 \<noteq> e" "e1 + 8 \<noteq> e + 8" "e1 + 8 \<noteq> h + 8"
    using Cons.prems lastin by auto
  have "?mem' p = Some e1" using p Cons.prems(1) by simp
  moreover have "?mem' (e1 + 8) = Some p" using e1 Cons.prems(1) by simp
  moreover have "last (p # e1 # es) = ?L" by simp
  ultimately show ?case using ih by (simp del: last.simps fun_upd_apply)
qed

lemma insert_tail_step:
  assumes ll: "linked_list mem h es"
    and fresh: "e \<notin> set (h # es)" "e AND 7 = 0"
      "\<forall>n \<in> set (h # es). n + 8 \<noteq> e \<and> e + 8 \<noteq> n"
    and mapped: "mem e \<noteq> None" "mem (e + 8) \<noteq> None"
  shows "\<exists>mem'. InsertTailList mem h e = Inr mem' \<and> linked_list mem' h (es @ [e]) \<and>
           dom mem' = dom mem"
proof -
  let ?L = "last (h # es)"
  let ?mem' = "mem(e \<mapsto> h, e + 8 \<mapsto> ?L, ?L \<mapsto> e, h + 8 \<mapsto> e)"
  from ll have ch: "chain mem h h es" and d: "distinct (h # es)"
    and sep: "\<forall>n \<in> set (h # es). n AND 7 = 0 \<and> (\<forall>m \<in> set (h # es). n + 8 \<noteq> m)"
    by (auto simp: linked_list_def)
  from chain_last [OF ch] have L: "mem (h + 8) = Some ?L" "mem ?L = Some h" by auto
  have sep': "\<forall>n \<in> set (h # e # h # es). \<forall>m \<in> set (h # e # h # es). n + 8 \<noteq> m"
    using sep fresh by auto
  have ch': "chain ?mem' h h (es @ [e])"
    using chain_snoc [OF ch d _ _ sep'] d fresh by auto
  have lastin: "?L \<in> set (h # es)" by (rule last_in_set) simp
  have neq: "e \<noteq> h + 8" "e + 8 \<noteq> ?L" "e \<noteq> ?L" "e + 8 \<noteq> h + 8" "?L \<noteq> h + 8"
    using fresh sep lastin by auto
  have ins: "InsertTailList mem h e = Inr ?mem'"
    using L mapped neq
    by (auto simp: InsertTailList_def and_then_def load_def store_def Flink_def Blink_def)
  have "linked_list ?mem' h (es @ [e])"
    unfolding linked_list_def using ch' d sep fresh by auto
  moreover have "dom ?mem' = dom mem"
    using L mapped by auto
  ultimately show ?thesis using ins by blast
qed


lemma init_linked:
  assumes "h AND 7 = 0" "mem h \<noteq> None" "mem (h + 8) \<noteq> None"
  shows "\<exists>mem'. InitializeListHead_at mem h = Inr mem' \<and> linked_list mem' h [] \<and> dom mem' = dom mem"
  using assms
  by (auto simp: InitializeListHead_at_def and_then_def store_def Flink_def Blink_def linked_list_def)

lemma insert_all_linked:
  assumes "linked_list mem (PolicyList_of c) ds"
    and "distinct (PolicyList_of c # ds @ es)"
    and "\<forall>n \<in> set (PolicyList_of c # ds @ es).
           n AND 7 = 0 \<and> (\<forall>m \<in> set (PolicyList_of c # ds @ es). n + 8 \<noteq> m)"
    and "\<forall>e \<in> set es. mem e \<noteq> None \<and> mem (e + 8) \<noteq> None"
  shows "\<exists>mem'. insert_all mem c es = Inr mem' \<and> linked_list mem' (PolicyList_of c) (ds @ es) \<and>
           dom mem' = dom mem"
  using assms
proof (induction es arbitrary: mem ds)
  case Nil
  then show ?case by simp
next
  case (Cons e es)
  have "\<exists>mem1. InsertTailList mem (PolicyList_of c) e = Inr mem1 \<and>
          linked_list mem1 (PolicyList_of c) (ds @ [e]) \<and> dom mem1 = dom mem"
    using Cons.prems by (intro insert_tail_step) auto
  then obtain mem1 where m1: "InsertTailList mem (PolicyList_of c) e = Inr mem1"
    "linked_list mem1 (PolicyList_of c) (ds @ [e])" "dom mem1 = dom mem"
    by blast
  have mapped: "\<forall>x \<in> set es. mem1 x \<noteq> None \<and> mem1 (x + 8) \<noteq> None"
    using Cons.prems(4) m1(3) by (metis domIff list.set_intros(2))
  from Cons.IH [OF m1(2) _ _ mapped] Cons.prems(2,3) obtain mem' where
    "insert_all mem1 c es = Inr mem'" "linked_list mem' (PolicyList_of c) ((ds @ [e]) @ es)"
    "dom mem' = dom mem1"
    by auto
  with m1 show ?case
    by (auto simp: PolicyInsert_at_def and_then_def)
qed

lemmas mem_defs = and_then_def load_def store_def Flink_def Blink_def PolicyList_of_def
  PolicyLock_of_def InitializeListHead_at_def InsertTailList_def PolicyInsert_at_def
  write_policy_def policy_cells_def KeAcquireSpinLock_at_def KeReleaseSpinLock_at_def
  DeviceType_field_def ProcessId_field_def Allowed_field_def returned_status_def

lemmas example_defs = example_context_def example_block1_def example_block2_def
  example_memory_def camera_allow_def camera_deny_def

subsection \<open>The lookup after an insert\<close>

text \<open>
  Claim C1, at the stores of the example. Block 1, filled with the rule (camera, any
  subject, Allow), reads device type 1 and process id 0. In store 1 the rule has been
  inserted: \<open>InsertTailList\<close> has written the address of the list head into the entry's
  \<open>Flink\<close>, so the block now reads device type \<open>0x00001010\<close> and process id \<open>0xFFFFA000\<close>,
  and the lookup for (camera, 4242) returns access-denied. In store 2, whose rules were
  written after their entries were linked, the lookup reads the Deny rule, goes on with the
  rule's own first cell (the value 1) as the next entry, and stops with a page fault.
\<close>

theorem linked_allow_rule_not_found:
  "map_option (\<lambda>c. (DeviceType_field c, ProcessId_field c))
      (case write_policy example_memory example_block1 camera_allow of
         Inl e \<Rightarrow> None | Inr m \<Rightarrow> m example_block1) = Some (1, 0) \<and>
   (\<exists>m. example_store1 = Inr m \<and>
        map_option (\<lambda>c. (DeviceType_field c, ProcessId_field c)) (m example_block1) =
          Some (0x00001010, 0xFFFFA000) \<and>
        returned_status (SecureHostCheckDeviceAccess_mem 3 m example_context DeviceTypeCamera 4242) =
          Some (Inr STATUS_ACCESS_DENIED)) \<and>
   (\<exists>m. example_store2 = Inr m \<and>
        returned_status (SecureHostCheckDeviceAccess_mem 3 m example_context DeviceTypeCamera 4242) =
          Some (Inl PageFault))"
  by (simp add: example_store1_def example_store2_def mem_defs example_defs
      SecureHostCheckDeviceAccess_mem_def numeral_3_eq_3)


subsection \<open>Draining the store\<close>

text \<open>
  Claim C6. Let the policy list of a context be a linked list with the entries \<open>es\<close>, as the
  initialised head is and as every insert leaves it (\<open>init_linked\<close>, \<open>insert_all_linked\<close>),
  and let the context's lock be in memory. Then the cleanup callback returns, having handed
  exactly the entries \<open>es\<close>, in order, to the pool's free routine; the list is empty
  afterwards; and a lookup on the memory it leaves returns access-denied, which is not a
  success status, for every device type and process id.
\<close>

theorem cleanup_drains_then_denies:
  assumes "linked_list mem (PolicyList_of Context) es"
    and "mem (PolicyLock_of Context) \<noteq> None"
    and "length es < fuel"
  shows "\<exists>mem'. SecureHostDriverCleanup fuel mem Context = Some (Inr (mem', es)) \<and>
      IsListEmpty mem' (PolicyList_of Context) = Inr True \<and>
      returned_status (SecureHostCheckDeviceAccess_mem (Suc n) mem' Context dt pid) =
        Some (Inr STATUS_ACCESS_DENIED) \<and>
      \<not> NT_SUCCESS STATUS_ACCESS_DENIED"
proof -
  from cleanup_loop_drains [OF assms(1,3), of "[]"] obtain mem' where
    m: "cleanup_loop fuel mem (PolicyList_of Context) [] = Some (Inr (mem', es))"
       "linked_list mem' (PolicyList_of Context) []" "dom mem' = dom mem"
    by auto
  from m(3) assms(2) have lock: "mem' (PolicyLock_of Context) \<noteq> None"
    by (metis domIff)
  from check_on_empty [OF m(2) lock, of n dt pid] have
    "returned_status (SecureHostCheckDeviceAccess_mem (Suc n) mem' Context dt pid) =
       Some (Inr STATUS_ACCESS_DENIED)"
    by (auto simp: returned_status_def)
  with m empty_list_head [OF m(2)] not_NT_SUCCESS_STATUS_ACCESS_DENIED show ?thesis
    by (auto simp: SecureHostDriverCleanup_def)
qed

lemma example_store3_linked:
  "\<exists>m. example_store3 = Inr m \<and>
       linked_list m (PolicyList_of example_context) [example_block1, example_block2] \<and>
       m (PolicyLock_of example_context) \<noteq> None"
  by (simp add: example_store3_def mem_defs example_defs linked_list_def)

text \<open>
  The theorem at store 3, two rules filled and inserted: the cleanup frees block 1 and
  block 2, and the lookup for (camera, 4242) on what it leaves returns access-denied.
\<close>

theorem cleanup_drains_then_denies_witness:
  "\<exists>m m'. example_store3 = Inr m \<and>
      SecureHostDriverCleanup 3 m example_context =
        Some (Inr (m', [example_block1, example_block2])) \<and>
      returned_status (SecureHostCheckDeviceAccess_mem 1 m' example_context DeviceTypeCamera 4242) =
        Some (Inr STATUS_ACCESS_DENIED)"
proof -
  from example_store3_linked obtain m where m: "example_store3 = Inr m"
    "linked_list m (PolicyList_of example_context) [example_block1, example_block2]"
    "m (PolicyLock_of example_context) \<noteq> None"
    by blast
  from cleanup_drains_then_denies [OF m(2) m(3), of 3 0 DeviceTypeCamera 4242] m(1)
  show ?thesis by auto
qed


section \<open>Properties of the network driver\<close>

subsection \<open>The classify callback\<close>

lemma classify_result:
  assumes "connect_event ix InFixedValues"
  shows "SecureHostClassifyFn ix InFixedValues InMetaValues Filter ClassifyOut s =
     Inr (ClassifyOut\<lparr>actionType := FWP_ACTION_PERMIT,
                      rights := (if flags_filter Filter AND FWPS_FILTER_FLAG_CLEAR_ACTION_RIGHT \<noteq> 0
                                 then rights ClassifyOut AND NOT FWPS_RIGHT_ACTION_WRITE
                                 else rights ClassifyOut)\<rparr>,
          s\<lparr>wfp_debug := wfp_debug s @
            [\<lparr>line_processId =
                 (if FWPS_IS_METADATA_FIELD_PRESENT InMetaValues FWPS_METADATA_FIELD_PROCESS_ID
                  then ucast (processId InMetaValues) else 0),
              line_localPort = uint16 (incomingValue InFixedValues !
                 FWPS_FIELD_ALE_AUTH_CONNECT_V4_IP_LOCAL_PORT ix),
              line_remotePort = uint16 (incomingValue InFixedValues !
                 FWPS_FIELD_ALE_AUTH_CONNECT_V4_IP_REMOTE_PORT ix),
              line_direction = ucast (uint8 (incomingValue InFixedValues !
                 FWPS_FIELD_ALE_AUTH_CONNECT_V4_DIRECTION ix))\<rparr>]\<rparr>)"
  using assms
  by (simp add: SecureHostClassifyFn_def connect_event_def incoming_value_at_def
      KdPrint_connection_def Let_def)

lemma PERMIT_neq_BLOCK: "FWP_ACTION_PERMIT \<noteq> FWP_ACTION_BLOCK"
  by (simp add: FWP_ACTION_PERMIT_def FWP_ACTION_BLOCK_def FWP_ACTION_FLAG_TERMINATING_def)

lemma clear_flag_set:
  "(f OR FWPS_FILTER_FLAG_CLEAR_ACTION_RIGHT) AND FWPS_FILTER_FLAG_CLEAR_ACTION_RIGHT \<noteq> 0"
  by (simp add: FWPS_FILTER_FLAG_CLEAR_ACTION_RIGHT_def)

lemma clear_flag_nonzero: "FWPS_FILTER_FLAG_CLEAR_ACTION_RIGHT \<noteq> 0"
  by (simp add: FWPS_FILTER_FLAG_CLEAR_ACTION_RIGHT_def)

lemma clear_flag_unset:
  "(f AND NOT FWPS_FILTER_FLAG_CLEAR_ACTION_RIGHT) AND FWPS_FILTER_FLAG_CLEAR_ACTION_RIGHT = 0"
  by (simp add: FWPS_FILTER_FLAG_CLEAR_ACTION_RIGHT_def word_bw_assocs)

lemma write_bit_cleared:
  "(r AND NOT FWPS_RIGHT_ACTION_WRITE) AND FWPS_RIGHT_ACTION_WRITE = 0"
  by (simp add: FWPS_RIGHT_ACTION_WRITE_def word_bw_assocs)

lemma other_bits_kept:
  "(r AND NOT FWPS_RIGHT_ACTION_WRITE) AND NOT FWPS_RIGHT_ACTION_WRITE =
   r AND NOT FWPS_RIGHT_ACTION_WRITE"
  by (simp add: word_bw_assocs)

lemma example_connect_event: "connect_event example_indices example_values"
  by (simp add: connect_event_def example_indices_def example_values_def)

text \<open>
  Claim C2. For every connect-attempt event, whatever the process id, the ports, the
  direction, the filter and the incoming output descriptor, \<open>SecureHostClassifyFn\<close> returns
  with the action type Permit (which is not Block). It leaves the driver context as it was,
  and with any other driver context in place, in particular any other rules list, it
  returns the same output descriptor.
\<close>

theorem classify_always_permits:
  assumes "connect_event ix InFixedValues"
  shows "\<exists>out s'.
      SecureHostClassifyFn ix InFixedValues InMetaValues Filter ClassifyOut s = Inr (out, s') \<and>
      actionType out = FWP_ACTION_PERMIT \<and>
      actionType out \<noteq> FWP_ACTION_BLOCK \<and>
      wfp_context s' = wfp_context s \<and>
      (\<forall>Context. SecureHostClassifyFn ix InFixedValues InMetaValues Filter ClassifyOut
                    (s\<lparr>wfp_context := Context\<rparr>) = Inr (out, s'\<lparr>wfp_context := Context\<rparr>))"
  using PERMIT_neq_BLOCK by (simp add: classify_result [OF assms])

text \<open>
  The theorem at the scenario, with a rules list that holds an enabled rule blocking exactly
  this connection: the action type is Permit, as with the empty rules list.
\<close>

theorem classify_always_permits_witness:
  "map_sum id (actionType \<circ> fst)
     (SecureHostClassifyFn example_indices example_values example_metadata (example_filter 0)
        example_out (example_state [example_block_rule])) = Inr FWP_ACTION_PERMIT \<and>
   map_sum id fst
     (SecureHostClassifyFn example_indices example_values example_metadata (example_filter 0)
        example_out (example_state [example_block_rule])) =
   map_sum id fst
     (SecureHostClassifyFn example_indices example_values example_metadata (example_filter 0)
        example_out (example_state []))"
  using classify_always_permits [OF example_connect_event, of example_metadata "example_filter 0"
      example_out "example_state [example_block_rule]"]
    classify_always_permits [OF example_connect_event, of example_metadata "example_filter 0"
      example_out "example_state []"]
  by (auto simp: classify_result [OF example_connect_event])

text \<open>
  Claim C7. For every connect-attempt event the callback writes the rights mask as follows:
  when the filter's flags contain \<open>FWPS_FILTER_FLAG_CLEAR_ACTION_RIGHT\<close> the output mask is
  the incoming mask with the bit \<open>FWPS_RIGHT_ACTION_WRITE\<close> cleared, otherwise it is the
  incoming mask untouched; the bits other than the write bit are those of the incoming mask
  in both cases. For two calls that differ only in that flag of the filter, the flagged call
  returns the mask with the write bit cleared, the other call returns the incoming mask, and
  the two output descriptors differ in the rights mask only.
\<close>

theorem classify_write_right_follows_flag:
  assumes "connect_event ix InFixedValues"
  shows "\<exists>out s'.
      SecureHostClassifyFn ix InFixedValues InMetaValues Filter ClassifyOut s = Inr (out, s') \<and>
      rights out =
        (if flags_filter Filter AND FWPS_FILTER_FLAG_CLEAR_ACTION_RIGHT \<noteq> 0
         then rights ClassifyOut AND NOT FWPS_RIGHT_ACTION_WRITE
         else rights ClassifyOut) \<and>
      rights out AND NOT FWPS_RIGHT_ACTION_WRITE =
        rights ClassifyOut AND NOT FWPS_RIGHT_ACTION_WRITE \<and>
      (\<exists>out1 out0.
         SecureHostClassifyFn ix InFixedValues InMetaValues
           (Filter\<lparr>flags_filter := flags_filter Filter OR FWPS_FILTER_FLAG_CLEAR_ACTION_RIGHT\<rparr>)
           ClassifyOut s = Inr (out1, s') \<and>
         SecureHostClassifyFn ix InFixedValues InMetaValues
           (Filter\<lparr>flags_filter := flags_filter Filter AND NOT FWPS_FILTER_FLAG_CLEAR_ACTION_RIGHT\<rparr>)
           ClassifyOut s = Inr (out0, s') \<and>
         rights out1 = rights ClassifyOut AND NOT FWPS_RIGHT_ACTION_WRITE \<and>
         rights out1 AND FWPS_RIGHT_ACTION_WRITE = 0 \<and>
         rights out0 = rights ClassifyOut \<and>
         out1 = out0\<lparr>rights := rights out1\<rparr>)"
  by (simp add: classify_result [OF assms] clear_flag_set clear_flag_unset clear_flag_nonzero
      write_bit_cleared other_bits_kept)

text \<open>
  The theorem at the scenario with the incoming mask \<open>0x0F\<close>: with the flag the callback
  returns \<open>0x0E\<close>, without it \<open>0x0F\<close>.
\<close>

theorem classify_write_right_follows_flag_witness:
  "map_sum id (rights \<circ> fst)
     (SecureHostClassifyFn example_indices example_values example_metadata (example_filter 1)
        example_out (example_state [])) = Inr 0x0E \<and>
   map_sum id (rights \<circ> fst)
     (SecureHostClassifyFn example_indices example_values example_metadata (example_filter 0)
        example_out (example_state [])) = Inr 0x0F"
  using classify_write_right_follows_flag [OF example_connect_event, of example_metadata
      "example_filter 1" example_out "example_state []"]
    classify_write_right_follows_flag [OF example_connect_event, of example_metadata
      "example_filter 0" example_out "example_state []"]
  by (auto simp: example_filter_def example_out_def FWPS_FILTER_FLAG_CLEAR_ACTION_RIGHT_def
      FWPS_RIGHT_ACTION_WRITE_def)

text \<open>
  Claim C8. For every connect-attempt event the callback returns normally (no fault) with
  the action type set, and the connection line it prints holds the extracted values: the two
  ports and the direction read from the array, and as process id the metadata's process id
  when the metadata marks it present, 0 when it does not.
\<close>

theorem classify_extraction_total:
  assumes "connect_event ix InFixedValues"
  shows "\<exists>out s'.
      SecureHostClassifyFn ix InFixedValues InMetaValues Filter ClassifyOut s = Inr (out, s') \<and>
      actionType out = FWP_ACTION_PERMIT \<and>
      wfp_debug s' = wfp_debug s @
        [\<lparr>line_processId =
             (if currentMetadataValues InMetaValues AND FWPS_METADATA_FIELD_PROCESS_ID =
                 FWPS_METADATA_FIELD_PROCESS_ID
              then ucast (processId InMetaValues) else 0),
          line_localPort = uint16 (incomingValue InFixedValues !
             FWPS_FIELD_ALE_AUTH_CONNECT_V4_IP_LOCAL_PORT ix),
          line_remotePort = uint16 (incomingValue InFixedValues !
             FWPS_FIELD_ALE_AUTH_CONNECT_V4_IP_REMOTE_PORT ix),
          line_direction = ucast (uint8 (incomingValue InFixedValues !
             FWPS_FIELD_ALE_AUTH_CONNECT_V4_DIRECTION ix))\<rparr>]"
  by (simp add: classify_result [OF assms] FWPS_IS_METADATA_FIELD_PRESENT_def)

text \<open>
  The theorem at the scenario with the process id not marked present: the callback returns,
  and the line holds process id 0, the ports 443 and 51000 and direction 0.
\<close>

theorem classify_extraction_total_witness:
  "map_sum id (wfp_debug \<circ> snd)
     (SecureHostClassifyFn example_indices example_values example_metadata_no_pid
        (example_filter 0) example_out (example_state [])) =
   Inr [\<lparr>line_processId = 0, line_localPort = 443, line_remotePort = 51000,
         line_direction = 0\<rparr>]"
  using classify_extraction_total [OF example_connect_event, of example_metadata_no_pid
      "example_filter 0" example_out "example_state []"]
  by (auto simp: example_metadata_no_pid_def example_state_def example_indices_def
      example_values_def uint16_def uint8_def FWPS_METADATA_FIELD_PROCESS_ID_def)


subsection \<open>Registration and unregistration of the callouts\<close>

text \<open>What each call of the host leaves in each field of the host state.\<close>

lemmas host_defs = FwpmEngineOpen0_def FwpmTransactionBegin0_def FwpsCalloutRegister3_def
  FwpsCalloutUnregisterById0_def FwpmSubLayerAdd0_def FwpmCalloutAdd0_def
  FwpmTransactionCommit0_def FwpmTransactionAbort0_def FwpmEngineClose0_def
  discard_transaction_def add_object_def called_def

lemma host_status:
  "fst (FwpmEngineOpen0 rp host) = (fst rp, if NT_SUCCESS (fst rp) then Some (snd rp) else None)"
  "fst (FwpmTransactionBegin0 st h host) = st"
  "fst (FwpsCalloutRegister3 rq key host) = (fst rq, if NT_SUCCESS (fst rq) then Some (snd rq) else None)"
  "fst (FwpmSubLayerAdd0 st h key host) = st"
  "fst (FwpmCalloutAdd0 st h key host) = st"
  "fst (FwpmTransactionCommit0 st h host) = st"
  by (simp_all add: host_defs Let_def)

lemma host_calls:
  "calls (snd (FwpmEngineOpen0 rp host)) = calls host @ [EngineOpen_call]"
  "calls (snd (FwpmTransactionBegin0 st h host)) = calls host @ [TransactionBegin_call h]"
  "calls (snd (FwpsCalloutRegister3 rq key host)) = calls host @ [CalloutRegister_call key]"
  "calls (snd (FwpsCalloutUnregisterById0 i host)) = calls host @ [CalloutUnregisterById_call i]"
  "calls (snd (FwpmSubLayerAdd0 st h key host)) = calls host @ [SubLayerAdd_call h key]"
  "calls (snd (FwpmCalloutAdd0 st h key host)) = calls host @ [CalloutAdd_call h key]"
  "calls (snd (FwpmTransactionCommit0 st h host)) = calls host @ [TransactionCommit_call h]"
  "calls (FwpmTransactionAbort0 h host) = calls host @ [TransactionAbort_call h]"
  "calls (FwpmEngineClose0 h host) = calls host @ [EngineClose_call h]"
  by (simp_all add: host_defs Let_def)

lemma host_callouts:
  "callouts (snd (FwpmEngineOpen0 rp host)) = callouts host"
  "callouts (snd (FwpmTransactionBegin0 st h host)) = callouts host"
  "callouts (snd (FwpsCalloutRegister3 rq key host)) =
     (if NT_SUCCESS (fst rq) then callouts host @ [snd rq] else callouts host)"
  "callouts (snd (FwpsCalloutUnregisterById0 i host)) = removeAll i (callouts host)"
  "callouts (snd (FwpmSubLayerAdd0 st h key host)) = callouts host"
  "callouts (snd (FwpmCalloutAdd0 st h key host)) = callouts host"
  "callouts (snd (FwpmTransactionCommit0 st h host)) = callouts host"
  "callouts (FwpmTransactionAbort0 h host) = callouts host"
  "callouts (FwpmEngineClose0 h host) = callouts host"
  by (simp_all add: host_defs Let_def)

lemma host_sessions:
  "sessions (snd (FwpmEngineOpen0 rp host)) =
     (if NT_SUCCESS (fst rp) then sessions host @ [snd rp] else sessions host)"
  "sessions (snd (FwpmTransactionBegin0 st h host)) = sessions host"
  "sessions (snd (FwpsCalloutRegister3 rq key host)) = sessions host"
  "sessions (snd (FwpsCalloutUnregisterById0 i host)) = sessions host"
  "sessions (snd (FwpmSubLayerAdd0 st h key host)) = sessions host"
  "sessions (snd (FwpmCalloutAdd0 st h key host)) = sessions host"
  "sessions (snd (FwpmTransactionCommit0 st h host)) = sessions host"
  "sessions (FwpmTransactionAbort0 h host) = sessions host"
  "sessions (FwpmEngineClose0 h host) = removeAll h (sessions host)"
  by (simp_all add: host_defs Let_def)

lemma host_transaction:
  "transaction (snd (FwpmEngineOpen0 rp host)) = transaction host"
  "transaction (snd (FwpmTransactionBegin0 st h host)) =
     (if NT_SUCCESS st then Some h else transaction host)"
  "transaction (snd (FwpsCalloutRegister3 rq key host)) = transaction host"
  "transaction (snd (FwpsCalloutUnregisterById0 i host)) = transaction host"
  "transaction (snd (FwpmSubLayerAdd0 st h key host)) = transaction host"
  "transaction (snd (FwpmCalloutAdd0 st h key host)) = transaction host"
  "transaction (snd (FwpmTransactionCommit0 st h host)) =
     (if NT_SUCCESS st \<and> transaction host = Some h then None else transaction host)"
  "transaction (FwpmTransactionAbort0 h host) =
     (if transaction host = Some h then None else transaction host)"
  "transaction (FwpmEngineClose0 h host) =
     (if transaction host = Some h then None else transaction host)"
  by (simp_all add: host_defs Let_def)

lemma host_objects:
  "objects (snd (FwpmEngineOpen0 rp host)) = objects host"
  "objects (snd (FwpmTransactionBegin0 st h host)) = objects host"
  "objects (snd (FwpsCalloutRegister3 rq key host)) = objects host"
  "objects (snd (FwpsCalloutUnregisterById0 i host)) = objects host"
  "objects (snd (FwpmSubLayerAdd0 st h key host)) =
     (if NT_SUCCESS st \<and> transaction host \<noteq> Some h then objects host @ [key] else objects host)"
  "objects (snd (FwpmCalloutAdd0 st h key host)) =
     (if NT_SUCCESS st \<and> transaction host \<noteq> Some h then objects host @ [key] else objects host)"
  "objects (snd (FwpmTransactionCommit0 st h host)) =
     (if NT_SUCCESS st \<and> transaction host = Some h then objects host @ pending host
      else objects host)"
  "objects (FwpmTransactionAbort0 h host) = objects host"
  "objects (FwpmEngineClose0 h host) = objects host"
  by (simp_all add: host_defs Let_def)

lemma first_failing_stepD:
  "first_failing_step r = Some k \<Longrightarrow>
     \<not> NT_SUCCESS (step_status r k) \<and> (\<forall>s \<in> set (completed_before k). NT_SUCCESS (step_status r s))"
  unfolding first_failing_step_def completed_before_def registration_steps_def
  by (cases k) (auto split: if_splits)

lemmas reg_simps = completed_before_def registration_steps_def SecureHostRegisterCallouts_def
  register_cleanup_def Let_def split_beta host_status

lemma register_fails_status:
  assumes null: "EngineHandle Context = NULL"
    and handle: "NT_SUCCESS (fst (EngineOpen_reply r)) \<longrightarrow> snd (EngineOpen_reply r) \<noteq> NULL"
    and k: "first_failing_step r = Some k"
  shows "fst (SecureHostRegisterCallouts r Context host) = step_status r k"
  using first_failing_stepD [OF k] null handle
  by (cases k) (simp_all add: reg_simps)

lemma register_fails_calls:
  assumes null: "EngineHandle Context = NULL"
    and handle: "NT_SUCCESS (fst (EngineOpen_reply r)) \<longrightarrow> snd (EngineOpen_reply r) \<noteq> NULL"
    and k: "first_failing_step r = Some k"
  shows "calls (snd (snd (SecureHostRegisterCallouts r Context host))) =
           calls host @ map (step_call r) (completed_before k @ [k]) @
           unwind_along code_unwind_order r k"
  using first_failing_stepD [OF k] null handle
  by (cases k) (simp_all add: reg_simps host_calls unwind_along_def code_unwind_order_def)


lemma register_fails_handle:
  assumes null: "EngineHandle Context = NULL"
    and handle: "NT_SUCCESS (fst (EngineOpen_reply r)) \<longrightarrow> snd (EngineOpen_reply r) \<noteq> NULL"
    and k: "first_failing_step r = Some k"
  shows "EngineHandle (fst (snd (SecureHostRegisterCallouts r Context host))) = NULL"
  using first_failing_stepD [OF k] null handle
  by (cases k) (simp_all add: reg_simps)

lemma register_fails_callouts:
  assumes null: "EngineHandle Context = NULL"
    and handle: "NT_SUCCESS (fst (EngineOpen_reply r)) \<longrightarrow> snd (EngineOpen_reply r) \<noteq> NULL"
    and k: "first_failing_step r = Some k"
  shows "set (callouts (snd (snd (SecureHostRegisterCallouts r Context host)))) \<subseteq> set (callouts host)"
  using first_failing_stepD [OF k] null handle
  by (cases k) (auto simp add: reg_simps host_callouts)

lemma register_fails_objects:
  assumes null: "EngineHandle Context = NULL"
    and handle: "NT_SUCCESS (fst (EngineOpen_reply r)) \<longrightarrow> snd (EngineOpen_reply r) \<noteq> NULL"
    and k: "first_failing_step r = Some k"
  shows "objects (snd (snd (SecureHostRegisterCallouts r Context host))) = objects host"
  using first_failing_stepD [OF k] null handle
  by (cases k) (simp_all add: reg_simps host_objects host_transaction)

lemma register_fails_session:
  assumes null: "EngineHandle Context = NULL"
    and handle: "NT_SUCCESS (fst (EngineOpen_reply r)) \<longrightarrow> snd (EngineOpen_reply r) \<noteq> NULL"
    and k: "first_failing_step r = Some k"
    and opened: "k \<noteq> Step_EngineOpen"
  shows "snd (EngineOpen_reply r) \<notin> set (sessions (snd (snd (SecureHostRegisterCallouts r Context host))))"
    and "transaction (snd (snd (SecureHostRegisterCallouts r Context host))) \<noteq>
           Some (snd (EngineOpen_reply r))"
  using first_failing_stepD [OF k] null handle opened
  by (cases k; simp add: reg_simps host_sessions host_transaction)+

text \<open>
  Claim C3, as amended. Let the routine be called on a context without engine handle, as
  DriverEntry calls it, and let the host return a handle other than \<open>NULL\<close> when it opens the
  engine. If step \<open>k\<close> is the first of the eight steps to fail, then the routine returns the
  status of step \<open>k\<close>, a failure. The calls it has made are those of the steps up to \<open>k\<close>
  followed by the undo calls of the completed steps in this order: the IPv4 callout is
  unregistered, then the IPv6 callout, then the transaction is aborted (not after a failed
  commit), then the engine is closed. The context holds no engine handle, the session the
  host had opened is closed and has no transaction in progress, no callout is registered that
  was not registered before the call, and no management object was added.
\<close>

theorem register_failure_unwinds:
  assumes null: "EngineHandle Context = NULL"
    and handle: "NT_SUCCESS (fst (EngineOpen_reply r)) \<longrightarrow> snd (EngineOpen_reply r) \<noteq> NULL"
    and k: "first_failing_step r = Some k"
  shows "fst (SecureHostRegisterCallouts r Context host) = step_status r k \<and>
    \<not> NT_SUCCESS (fst (SecureHostRegisterCallouts r Context host)) \<and>
    calls (snd (snd (SecureHostRegisterCallouts r Context host))) =
      calls host @ map (step_call r) (completed_before k @ [k]) @
      unwind_along code_unwind_order r k \<and>
    EngineHandle (fst (snd (SecureHostRegisterCallouts r Context host))) = NULL \<and>
    (k \<noteq> Step_EngineOpen \<longrightarrow>
       snd (EngineOpen_reply r) \<notin>
         set (sessions (snd (snd (SecureHostRegisterCallouts r Context host)))) \<and>
       transaction (snd (snd (SecureHostRegisterCallouts r Context host))) \<noteq>
         Some (snd (EngineOpen_reply r))) \<and>
    set (callouts (snd (snd (SecureHostRegisterCallouts r Context host)))) \<subseteq>
      set (callouts host) \<and>
    objects (snd (snd (SecureHostRegisterCallouts r Context host))) = objects host"
  using first_failing_stepD [OF k]
  by (simp add: register_fails_status [OF assms] register_fails_calls [OF assms]
      register_fails_handle [OF assms] register_fails_callouts [OF assms]
      register_fails_objects [OF assms] register_fails_session [OF assms])

text \<open>The replies of the example with the sublayer add failing.\<close>

lemma example_sublayer_fails:
  "first_failing_step (example_replies\<lparr>SubLayerAdd_reply := STATUS_UNSUCCESSFUL\<rparr>) =
     Some Step_SubLayerAdd"
  by (simp add: first_failing_step_def registration_steps_def example_replies_def
      STATUS_UNSUCCESSFUL_def STATUS_SUCCESS_def NT_SUCCESS_def)

lemma example_handle_ok:
  "NT_SUCCESS (fst (EngineOpen_reply (example_replies\<lparr>SubLayerAdd_reply := STATUS_UNSUCCESSFUL\<rparr>))) \<longrightarrow>
   snd (EngineOpen_reply (example_replies\<lparr>SubLayerAdd_reply := STATUS_UNSUCCESSFUL\<rparr>)) \<noteq> NULL"
  by (simp add: example_replies_def NULL_def)

lemma example_context_null: "EngineHandle (DriverEntry_wfp_context d) = NULL"
  by (simp add: DriverEntry_wfp_context_def)

text \<open>
  The theorem at the example host with the sublayer add failing: the status is the sublayer
  add's, the two callouts are unregistered, the transaction aborted and the engine closed,
  and no callout remains registered.
\<close>

theorem register_failure_unwinds_witness:
  "fst (SecureHostRegisterCallouts (example_replies\<lparr>SubLayerAdd_reply := STATUS_UNSUCCESSFUL\<rparr>)
         (DriverEntry_wfp_context 1) example_host) = STATUS_UNSUCCESSFUL \<and>
   calls (snd (snd (SecureHostRegisterCallouts
         (example_replies\<lparr>SubLayerAdd_reply := STATUS_UNSUCCESSFUL\<rparr>)
         (DriverEntry_wfp_context 1) example_host))) =
     [EngineOpen_call, TransactionBegin_call 7,
      CalloutRegister_call SECUREHOST_WFP_CALLOUT_V4_GUID,
      CalloutRegister_call SECUREHOST_WFP_CALLOUT_V6_GUID,
      SubLayerAdd_call 7 SECUREHOST_WFP_SUBLAYER_GUID,
      CalloutUnregisterById_call 1, CalloutUnregisterById_call 2,
      TransactionAbort_call 7, EngineClose_call 7] \<and>
   callouts (snd (snd (SecureHostRegisterCallouts
         (example_replies\<lparr>SubLayerAdd_reply := STATUS_UNSUCCESSFUL\<rparr>)
         (DriverEntry_wfp_context 1) example_host))) = []"
  using register_failure_unwinds [OF example_context_null example_handle_ok example_sublayer_fails,
      of 1 example_host]
  by (simp add: example_replies_def example_host_def completed_before_def registration_steps_def
      unwind_along_def code_unwind_order_def)

lemma example_sublayer_lists:
  "unwind_along code_unwind_order (example_replies\<lparr>SubLayerAdd_reply := STATUS_UNSUCCESSFUL\<rparr>)
     Step_SubLayerAdd =
     [CalloutUnregisterById_call 1, CalloutUnregisterById_call 2,
      TransactionAbort_call 7, EngineClose_call 7]"
  "unwind_along spec_reverse_order (example_replies\<lparr>SubLayerAdd_reply := STATUS_UNSUCCESSFUL\<rparr>)
     Step_SubLayerAdd =
     [CalloutUnregisterById_call 2, CalloutUnregisterById_call 1,
      TransactionAbort_call 7, EngineClose_call 7]"
  "map (step_call (example_replies\<lparr>SubLayerAdd_reply := STATUS_UNSUCCESSFUL\<rparr>))
       (completed_before Step_SubLayerAdd @ [Step_SubLayerAdd]) =
     [EngineOpen_call, TransactionBegin_call 7,
      CalloutRegister_call SECUREHOST_WFP_CALLOUT_V4_GUID,
      CalloutRegister_call SECUREHOST_WFP_CALLOUT_V6_GUID,
      SubLayerAdd_call 7 SECUREHOST_WFP_SUBLAYER_GUID]"
  "calls example_host = []"
  by (simp_all add: example_replies_def example_host_def completed_before_def
      registration_steps_def unwind_along_def code_unwind_order_def spec_reverse_order_def)

lemma example_sublayer_calls:
  "calls (snd (snd (SecureHostRegisterCallouts
         (example_replies\<lparr>SubLayerAdd_reply := STATUS_UNSUCCESSFUL\<rparr>)
         (DriverEntry_wfp_context 1) example_host))) =
     [EngineOpen_call, TransactionBegin_call 7,
      CalloutRegister_call SECUREHOST_WFP_CALLOUT_V4_GUID,
      CalloutRegister_call SECUREHOST_WFP_CALLOUT_V6_GUID,
      SubLayerAdd_call 7 SECUREHOST_WFP_SUBLAYER_GUID,
      CalloutUnregisterById_call 1, CalloutUnregisterById_call 2,
      TransactionAbort_call 7, EngineClose_call 7]"
  by (simp only: register_fails_calls [OF example_context_null example_handle_ok
        example_sublayer_fails] example_sublayer_lists append.simps)

text \<open>
  Claim C3 as stated asks for the completed steps to be unwound in reverse order. With the
  sublayer add failing, the reverse order unregisters the IPv6 callout (id 2) before the IPv4
  callout (id 1); the routine unregisters id 1 before id 2, so its calls are not the claimed
  ones.
\<close>

theorem register_unwind_not_reverse_counterexample:
  "first_failing_step (example_replies\<lparr>SubLayerAdd_reply := STATUS_UNSUCCESSFUL\<rparr>) =
     Some Step_SubLayerAdd \<and>
   unwind_along spec_reverse_order (example_replies\<lparr>SubLayerAdd_reply := STATUS_UNSUCCESSFUL\<rparr>)
     Step_SubLayerAdd =
     [CalloutUnregisterById_call 2, CalloutUnregisterById_call 1,
      TransactionAbort_call 7, EngineClose_call 7] \<and>
   calls (snd (snd (SecureHostRegisterCallouts
         (example_replies\<lparr>SubLayerAdd_reply := STATUS_UNSUCCESSFUL\<rparr>)
         (DriverEntry_wfp_context 1) example_host))) =
     [EngineOpen_call, TransactionBegin_call 7,
      CalloutRegister_call SECUREHOST_WFP_CALLOUT_V4_GUID,
      CalloutRegister_call SECUREHOST_WFP_CALLOUT_V6_GUID,
      SubLayerAdd_call 7 SECUREHOST_WFP_SUBLAYER_GUID,
      CalloutUnregisterById_call 1, CalloutUnregisterById_call 2,
      TransactionAbort_call 7, EngineClose_call 7] \<and>
   calls (snd (snd (SecureHostRegisterCallouts
         (example_replies\<lparr>SubLayerAdd_reply := STATUS_UNSUCCESSFUL\<rparr>)
         (DriverEntry_wfp_context 1) example_host))) \<noteq>
     calls example_host @
     map (step_call (example_replies\<lparr>SubLayerAdd_reply := STATUS_UNSUCCESSFUL\<rparr>))
       (completed_before Step_SubLayerAdd @ [Step_SubLayerAdd]) @
     unwind_along spec_reverse_order (example_replies\<lparr>SubLayerAdd_reply := STATUS_UNSUCCESSFUL\<rparr>)
       Step_SubLayerAdd"
  by (simp add: example_sublayer_fails example_sublayer_calls example_sublayer_lists)


lemma example_all_succeed:
  "NT_SUCCESS (fst (EngineOpen_reply example_replies))"
  "NT_SUCCESS (TransactionBegin_reply example_replies)"
  "NT_SUCCESS (fst (CalloutRegisterV4_reply example_replies))"
  "NT_SUCCESS (fst (CalloutRegisterV6_reply example_replies))"
  "NT_SUCCESS (SubLayerAdd_reply example_replies)"
  "NT_SUCCESS (CalloutAddV4_reply example_replies)"
  "NT_SUCCESS (CalloutAddV6_reply example_replies)"
  "NT_SUCCESS (TransactionCommit_reply example_replies)"
  "snd (EngineOpen_reply example_replies) = 7"
  "snd (CalloutRegisterV4_reply example_replies) = 1"
  "snd (CalloutRegisterV6_reply example_replies) = 2"
  by (simp_all add: example_replies_def NT_SUCCESS_STATUS_SUCCESS)

lemma example_registered_result:
  "fst example_registered = STATUS_SUCCESS"
  "fst (snd example_registered) =
     (DriverEntry_wfp_context 1)\<lparr>EngineHandle := 7, CalloutIdV4 := 1, CalloutIdV6 := 2\<rparr>"
  "callouts (snd (snd example_registered)) = [1, 2]"
  "sessions (snd (snd example_registered)) = [7]"
  "calls (snd (snd example_registered)) =
     [EngineOpen_call, TransactionBegin_call 7,
      CalloutRegister_call SECUREHOST_WFP_CALLOUT_V4_GUID,
      CalloutRegister_call SECUREHOST_WFP_CALLOUT_V6_GUID,
      SubLayerAdd_call 7 SECUREHOST_WFP_SUBLAYER_GUID,
      CalloutAdd_call 7 SECUREHOST_WFP_CALLOUT_V4_GUID,
      CalloutAdd_call 7 SECUREHOST_WFP_CALLOUT_V6_GUID,
      TransactionCommit_call 7]"
  by (simp_all add: example_registered_def SecureHostRegisterCallouts_def Let_def split_beta
      host_status host_calls host_callouts host_sessions example_all_succeed example_host_def)

lemma unregister_result:
  "fst (SecureHostUnregisterCallouts C host) = STATUS_SUCCESS"
  "fst (snd (SecureHostUnregisterCallouts C host)) = C\<lparr>EngineHandle := NULL\<rparr>"
  "calls (snd (snd (SecureHostUnregisterCallouts C host))) =
     calls host @
     (if CalloutIdV4 C \<noteq> 0 then [CalloutUnregisterById_call (CalloutIdV4 C)] else []) @
     (if CalloutIdV6 C \<noteq> 0 then [CalloutUnregisterById_call (CalloutIdV6 C)] else []) @
     (if EngineHandle C \<noteq> NULL then [EngineClose_call (EngineHandle C)] else [])"
  "callouts (snd (snd (SecureHostUnregisterCallouts C host))) =
     (if CalloutIdV6 C \<noteq> 0 then removeAll (CalloutIdV6 C) else id)
       ((if CalloutIdV4 C \<noteq> 0 then removeAll (CalloutIdV4 C) else id) (callouts host))"
  by (auto simp add: SecureHostUnregisterCallouts_def Let_def host_calls host_callouts)

text \<open>
  Claim C4 at the state a successful registration leaves (callout ids 1 and 2, engine handle
  7). The first call of \<open>SecureHostUnregisterCallouts\<close> unregisters both callouts and closes
  the engine; no callout is registered after it. The routine resets the engine handle to
  \<open>NULL\<close> and leaves the two callout ids in the context, so the second call returns success
  and calls \<open>FwpsCalloutUnregisterById0\<close> for id 1 and id 2 again.
\<close>

theorem unregister_twice_repeats_unregister:
  "fst example_registered = STATUS_SUCCESS \<and>
   callouts (snd (snd example_registered)) = [1, 2] \<and>
   (let first = SecureHostUnregisterCallouts (fst (snd example_registered))
                  (snd (snd example_registered));
        second = SecureHostUnregisterCallouts (fst (snd first)) (snd (snd first))
    in callouts (snd (snd first)) = [] \<and>
       drop 8 (calls (snd (snd first))) =
         [CalloutUnregisterById_call 1, CalloutUnregisterById_call 2, EngineClose_call 7] \<and>
       fst second = STATUS_SUCCESS \<and>
       drop 11 (calls (snd (snd second))) =
         [CalloutUnregisterById_call 1, CalloutUnregisterById_call 2])"
  by (simp add: Let_def unregister_result example_registered_result NULL_def
      DriverEntry_wfp_context_def)

end
